theory Spec2Isabelle
  imports Complex_Main "HOL-Library.Sublist" "HOL-Library.Multiset"
begin

section \<open>JavaScript numbers\<close>

text \<open>
  A JavaScript number is an IEEE double. The model keeps the three non-finite values,
  because the code divides without guards and the results decide branches, and idealises
  the finite ones as reals: no rounding, no overflow to infinity, no negative zero (a zero
  divisor counts as \<open>+0\<close>).
\<close>

datatype jsnum = Fin real | PInf | NInf | NaN

fun jsign :: "jsnum \<Rightarrow> int" where
  "jsign (Fin a) = (if a < 0 then -1 else if a = 0 then 0 else 1)"
| "jsign PInf = 1"
| "jsign NInf = -1"
| "jsign NaN = 0"

fun jadd :: "jsnum \<Rightarrow> jsnum \<Rightarrow> jsnum" where
  "jadd NaN y = NaN"
| "jadd x NaN = NaN"
| "jadd (Fin a) (Fin b) = Fin (a + b)"
| "jadd PInf NInf = NaN"
| "jadd NInf PInf = NaN"
| "jadd PInf y = PInf"
| "jadd NInf y = NInf"
| "jadd (Fin a) y = y"

fun jneg :: "jsnum \<Rightarrow> jsnum" where
  "jneg (Fin a) = Fin (- a)"
| "jneg PInf = NInf"
| "jneg NInf = PInf"
| "jneg NaN = NaN"

fun jmul :: "jsnum \<Rightarrow> jsnum \<Rightarrow> jsnum" where
  "jmul NaN y = NaN"
| "jmul x NaN = NaN"
| "jmul (Fin a) (Fin b) = Fin (a * b)"
| "jmul x y = (let s = jsign x * jsign y
               in if s = 0 then NaN else if 0 < s then PInf else NInf)"

fun jdiv :: "jsnum \<Rightarrow> jsnum \<Rightarrow> jsnum" where
  "jdiv NaN y = NaN"
| "jdiv x NaN = NaN"
| "jdiv (Fin a) (Fin b) =
     (if b \<noteq> 0 then Fin (a / b)
      else if a = 0 then NaN else if 0 < a then PInf else NInf)"
| "jdiv (Fin a) y = Fin 0"
| "jdiv x (Fin b) = (if 0 \<le> b then x else jneg x)"
| "jdiv x y = NaN"

fun jless :: "jsnum \<Rightarrow> jsnum \<Rightarrow> bool" where
  "jless NaN y = False"
| "jless x NaN = False"
| "jless (Fin a) (Fin b) = (a < b)"
| "jless x NInf = False"
| "jless PInf y = False"
| "jless x y = True"

fun jless_eq :: "jsnum \<Rightarrow> jsnum \<Rightarrow> bool" where
  "jless_eq NaN y = False"
| "jless_eq x NaN = False"
| "jless_eq x y = (x = y \<or> jless x y)"

text \<open>The operators \<open>+\<close>, \<open>-\<close>, \<open>*\<close>, \<open>/\<close>, \<open><\<close> and \<open>\<le>\<close> on \<open>jsnum\<close> are those of
  JavaScript; \<open>a > b\<close> is \<open>b < a\<close>, and every comparison with \<open>NaN\<close> is false.\<close>

instantiation jsnum :: "{plus, minus, uminus, times, inverse, ord}"
begin

definition plus_jsnum :: "jsnum \<Rightarrow> jsnum \<Rightarrow> jsnum" where
  "plus_jsnum = jadd"

definition uminus_jsnum :: "jsnum \<Rightarrow> jsnum" where
  "uminus_jsnum = jneg"

definition minus_jsnum :: "jsnum \<Rightarrow> jsnum \<Rightarrow> jsnum" where
  "minus_jsnum x y = jadd x (jneg y)"

definition times_jsnum :: "jsnum \<Rightarrow> jsnum \<Rightarrow> jsnum" where
  "times_jsnum = jmul"

definition divide_jsnum :: "jsnum \<Rightarrow> jsnum \<Rightarrow> jsnum" where
  "divide_jsnum = jdiv"

definition inverse_jsnum :: "jsnum \<Rightarrow> jsnum" where
  "inverse_jsnum x = jdiv (Fin 1) x"

definition less_jsnum :: "jsnum \<Rightarrow> jsnum \<Rightarrow> bool" where
  "less_jsnum = jless"

definition less_eq_jsnum :: "jsnum \<Rightarrow> jsnum \<Rightarrow> bool" where
  "less_eq_jsnum = jless_eq"

instance ..

end

text \<open>\<open>Math.abs\<close>, \<open>Math.sqrt\<close>, \<open>Math.floor\<close>, \<open>Math.ceil\<close>, \<open>Math.pow(x, 2)\<close>.\<close>

fun Math_abs :: "jsnum \<Rightarrow> jsnum" where
  "Math_abs (Fin a) = Fin \<bar>a\<bar>"
| "Math_abs PInf = PInf"
| "Math_abs NInf = PInf"
| "Math_abs NaN = NaN"

fun Math_sqrt :: "jsnum \<Rightarrow> jsnum" where
  "Math_sqrt (Fin a) = (if a < 0 then NaN else Fin (sqrt a))"
| "Math_sqrt PInf = PInf"
| "Math_sqrt NInf = NaN"
| "Math_sqrt NaN = NaN"

fun Math_floor :: "jsnum \<Rightarrow> jsnum" where
  "Math_floor (Fin a) = Fin (of_int \<lfloor>a\<rfloor>)"
| "Math_floor x = x"

fun Math_ceil :: "jsnum \<Rightarrow> jsnum" where
  "Math_ceil (Fin a) = Fin (of_int \<lceil>a\<rceil>)"
| "Math_ceil x = x"

definition Math_pow2 :: "jsnum \<Rightarrow> jsnum" where
  "Math_pow2 x = x * x"

text \<open>\<open>Math.min(a, b)\<close> and \<open>Math.max(a, b)\<close>: \<open>NaN\<close> if either argument is.\<close>

fun Math_min2 :: "jsnum \<Rightarrow> jsnum \<Rightarrow> jsnum" where
  "Math_min2 NaN y = NaN"
| "Math_min2 x NaN = NaN"
| "Math_min2 x y = (if jless y x then y else x)"

fun Math_max2 :: "jsnum \<Rightarrow> jsnum \<Rightarrow> jsnum" where
  "Math_max2 NaN y = NaN"
| "Math_max2 x NaN = NaN"
| "Math_max2 x y = (if jless x y then y else x)"

text \<open>\<open>Math.min(...values)\<close> and \<open>Math.max(...values)\<close>; on no arguments they are
  \<open>+Infinity\<close> and \<open>-Infinity\<close>.\<close>

definition Math_min :: "jsnum list \<Rightarrow> jsnum" where
  "Math_min xs = foldl Math_min2 PInf xs"

definition Math_max :: "jsnum list \<Rightarrow> jsnum" where
  "Math_max xs = foldl Math_max2 NInf xs"

text \<open>\<open>isNaN\<close>, and the number of a natural such as \<open>values.length\<close>.\<close>

fun isNaN :: "jsnum \<Rightarrow> bool" where
  "isNaN NaN = True"
| "isNaN x = False"

definition num :: "nat \<Rightarrow> jsnum" where
  "num n = Fin (real n)"

text \<open>Reading \<open>xs[i]\<close> where a number is expected: out of range the read is \<open>undefined\<close>,
  which arithmetic and comparisons take as \<open>NaN\<close>.\<close>

definition nth_num :: "jsnum list \<Rightarrow> nat \<Rightarrow> jsnum" where
  "nth_num xs i = (if i < length xs then xs ! i else NaN)"

text \<open>An index computed as \<open>Math.floor(n * p)\<close> for a length \<open>n\<close> and \<open>0 \<le> p\<close>.\<close>

definition floor_index :: "nat \<Rightarrow> real \<Rightarrow> nat" where
  "floor_index n p = nat \<lfloor>real n * p\<rfloor>"

subsection \<open>\<open>Number.prototype.toFixed(1)\<close>\<close>

definition digit :: "nat \<Rightarrow> char" where
  "digit d = ''0123456789'' ! d"

function decimal :: "nat \<Rightarrow> string" where
  "decimal n = (if n < 10 then [digit n] else decimal (n div 10) @ [digit (n mod 10)])"
  by pat_completeness auto
termination
  by (relation "measure id") auto

declare decimal.simps [simp del]

text \<open>
  \<open>x.toFixed(1)\<close> takes the integer \<open>n\<close> with \<open>n / 10\<close> nearest to \<open>\<bar>x\<bar>\<close> (the larger of
  two) and prints it with one digit after the point, behind a minus sign when \<open>x < 0\<close>.
  From \<open>10\<^sup>2\<^sup>1\<close> on it prints the number as \<open>String(x)\<close> does, in exponent notation: that
  conversion is the engine's, and is the parameter \<open>expo\<close>.
\<close>

definition toFixed1_pos :: "(real \<Rightarrow> string) \<Rightarrow> real \<Rightarrow> string" where
  "toFixed1_pos expo x =
     (if 10 ^ 21 \<le> x then expo x
      else let n = nat \<lfloor>x * 10 + 1 / 2\<rfloor>
           in decimal (n div 10) @ ''.'' @ decimal (n mod 10))"

fun toFixed1 :: "(real \<Rightarrow> string) \<Rightarrow> jsnum \<Rightarrow> string" where
  "toFixed1 expo NaN = ''NaN''"
| "toFixed1 expo PInf = ''Infinity''"
| "toFixed1 expo NInf = ''-Infinity''"
| "toFixed1 expo (Fin x) =
     (if x < 0 then ''-'' @ toFixed1_pos expo (- x) else toFixed1_pos expo x)"

section \<open>Data model (\<open>types/index.ts\<close>)\<close>

text \<open>A \<open>Date\<close> holds a time value in milliseconds since the epoch, or is invalid (its
  \<open>getTime()\<close> is \<open>NaN\<close>).\<close>

datatype Date = Valid int | Invalid

fun getTime :: "Date \<Rightarrow> jsnum" where
  "getTime (Valid t) = Fin (of_int t)"
| "getTime Invalid = NaN"

datatype DataType = Historical | Predicted

text \<open>\<open>DataTypeFilter\<close> is \<open>'Both' | 'Historical' | 'Predicted'\<close>; \<open>Only t\<close> stands for the
  string that names the data type \<open>t\<close>.\<close>

datatype DataTypeFilter = Both | Only DataType

datatype AttributeKey = StressIndexKey | HeartRateKey | SystolicBPKey | DiastolicBPKey

text \<open>The four optional attributes hold a finite number or are \<open>undefined\<close>
  (\<open>None\<close>).\<close>

record CombinedData =
  datetime :: Date
  dataType :: DataType
  StressIndex :: "real option"
  HeartRate :: "real option"
  SystolicBP :: "real option"
  DiastolicBP :: "real option"

datatype InsightType = warning | success | info

text \<open>The icon strings of the source are emoji; each constructor names one of them:
  warning sign, check mark, information sign, chart rising, chart falling, right arrow,
  bar chart, direct hit.\<close>

datatype Icon =
  WarningSign | CheckMark | InfoSign | ChartUp | ChartDown | ArrowRight | BarChart | DirectHit

record InsightData =
  type :: InsightType
  icon :: Icon
  message :: string

text \<open>\<open>d[attribute]\<close>, the test \<open>d[attribute] !== undefined && d[attribute] !== null\<close>,
  the cast \<open>d[attribute] as number\<close> in a numeric context, and the attribute's name in a
  template string.\<close>

fun getAttr :: "AttributeKey \<Rightarrow> CombinedData \<Rightarrow> real option" where
  "getAttr StressIndexKey d = StressIndex d"
| "getAttr HeartRateKey d = HeartRate d"
| "getAttr SystolicBPKey d = SystolicBP d"
| "getAttr DiastolicBPKey d = DiastolicBP d"

definition hasAttribute :: "AttributeKey \<Rightarrow> CombinedData \<Rightarrow> bool" where
  "hasAttribute attribute d = (getAttr attribute d \<noteq> None)"

fun asNumber :: "real option \<Rightarrow> jsnum" where
  "asNumber (Some v) = Fin v"
| "asNumber None = NaN"

fun attrName :: "AttributeKey \<Rightarrow> string" where
  "attrName StressIndexKey = ''StressIndex''"
| "attrName HeartRateKey = ''HeartRate''"
| "attrName SystolicBPKey = ''SystolicBP''"
| "attrName DiastolicBPKey = ''DiastolicBP''"

text \<open>\<open>xs.reduce((sum, d) => sum + (d[attribute] as number), 0)\<close> and
  \<open>xs.reduce((a, b) => a + b, 0)\<close>.\<close>

definition sumAttr :: "AttributeKey \<Rightarrow> CombinedData list \<Rightarrow> jsnum" where
  "sumAttr attribute xs = foldl (\<lambda>sum d. sum + asNumber (getAttr attribute d)) (Fin 0) xs"

definition sumNum :: "jsnum list \<Rightarrow> jsnum" where
  "sumNum xs = foldl (\<lambda>a b. a + b) (Fin 0) xs"

section \<open>\<open>Array.prototype.sort\<close> with a comparator\<close>

text \<open>
  The sort is stable, and puts \<open>a\<close> after \<open>b\<close> only where the comparator's result is
  greater than zero (a \<open>NaN\<close> result counts as zero). For a consistent comparator every
  stable sort gives the same array; the model is insertion sort.
\<close>

fun insert_by :: "('a \<Rightarrow> 'a \<Rightarrow> jsnum) \<Rightarrow> 'a \<Rightarrow> 'a list \<Rightarrow> 'a list" where
  "insert_by cmp x [] = [x]"
| "insert_by cmp x (y # ys) =
     (if Fin 0 < cmp x y then y # insert_by cmp x ys else x # y # ys)"

definition sort_by :: "('a \<Rightarrow> 'a \<Rightarrow> jsnum) \<Rightarrow> 'a list \<Rightarrow> 'a list" where
  "sort_by cmp xs = foldr (insert_by cmp) xs []"

text \<open>\<open>values.sort((a, b) => a - b)\<close>.\<close>

definition sortNumbers :: "jsnum list \<Rightarrow> jsnum list" where
  "sortNumbers values = sort_by (\<lambda>a b. a - b) values"

section \<open>\<open>generateInsights\<close> (\<open>utils/insights.ts\<close>)\<close>

text \<open>
  The function pushes onto \<open>insights\<close> in four commented blocks, one after the other;
  each block is a function here that takes the array so far and returns it, extended or
  not. The first: "Compare historical vs predicted if both are available".
\<close>

definition compareHistoricalPredicted ::
  "(real \<Rightarrow> string) \<Rightarrow> CombinedData list \<Rightarrow> AttributeKey \<Rightarrow> DataTypeFilter
     \<Rightarrow> InsightData list \<Rightarrow> InsightData list"
where
  "compareHistoricalPredicted expo validData attribute dataTypeFilter insights =
    (if dataTypeFilter = Both then
       let historicalData = filter (\<lambda>d. dataType d = Historical) validData;
           predictedData = filter (\<lambda>d. dataType d = Predicted) validData
       in if length historicalData > 0 \<and> length predictedData > 0 then
            let historicalMean = sumAttr attribute historicalData / num (length historicalData);
                predictedMean = sumAttr attribute predictedData / num (length predictedData);
                changePercent = ((predictedMean - historicalMean) / historicalMean) * Fin 100
            in if changePercent > Fin 10 then
                 insights @ [\<lparr>type = warning, icon = WarningSign,
                   message = attrName attribute @ '' is projected to increase by ''
                     @ toFixed1 expo changePercent @ ''%. Preventive measures recommended.''\<rparr>]
               else if changePercent < Fin (- 10) then
                 insights @ [\<lparr>type = success, icon = CheckMark,
                   message = attrName attribute
                     @ '' shows signs of improvement with a projected decrease of ''
                     @ toFixed1 expo (Math_abs changePercent) @ ''%.''\<rparr>]
               else
                 insights @ [\<lparr>type = info, icon = InfoSign,
                   message = attrName attribute @ '' remains stable with minor fluctuations (''
                     @ (if changePercent > Fin 0 then ''+'' else [])
                     @ toFixed1 expo changePercent @ ''%).''\<rparr>]
          else insights
     else insights)"

text \<open>"Trend analysis": the least-squares slope of the values against their positions.\<close>

definition trendSlope :: "jsnum list \<Rightarrow> jsnum" where
  "trendSlope values =
    (let timePoints = map num [0..<length values];
         n = num (length values);
         sumX = sumNum timePoints;
         sumY = sumNum values;
         sumXY = foldl (\<lambda>sum (x, i). sum + x * nth_num values i) (Fin 0)
                   (zip timePoints [0..<length timePoints]);
         sumXX = foldl (\<lambda>sum x. sum + x * x) (Fin 0) timePoints
     in (n * sumXY - sumX * sumY) / (n * sumXX - sumX * sumX))"

definition trendAnalysis ::
  "CombinedData list \<Rightarrow> AttributeKey \<Rightarrow> InsightData list \<Rightarrow> InsightData list"
where
  "trendAnalysis validData attribute insights =
    (if length validData > 1 then
       let values = map (\<lambda>d. asNumber (getAttr attribute d)) validData;
           slope = trendSlope values
       in if Math_abs slope > Fin (1 / 100) then
            if slope > Fin 0 then
              insights @ [\<lparr>type = info, icon = ChartUp,
                message = ''Trend Analysis: '' @ attrName attribute
                  @ '' shows an upward trend over the selected period.''\<rparr>]
            else
              insights @ [\<lparr>type = info, icon = ChartDown,
                message = ''Trend Analysis: '' @ attrName attribute
                  @ '' shows a downward trend over the selected period.''\<rparr>]
          else
            insights @ [\<lparr>type = info, icon = ArrowRight,
              message = ''Trend Analysis: '' @ attrName attribute
                @ '' shows a stable trend over the selected period.''\<rparr>]
     else insights)"

text \<open>"Variability analysis", on the array \<open>values\<close>.\<close>

definition coefficientOfVariation :: "jsnum list \<Rightarrow> jsnum" where
  "coefficientOfVariation values =
    (let mean = sumNum values / num (length values);
         variance = foldl (\<lambda>sum val. sum + Math_pow2 (val - mean)) (Fin 0) values
                      / num (length values);
         stdDev = Math_sqrt variance
     in (stdDev / mean) * Fin 100)"

definition variabilityAnalysis ::
  "(real \<Rightarrow> string) \<Rightarrow> jsnum list \<Rightarrow> AttributeKey \<Rightarrow> InsightData list \<Rightarrow> InsightData list"
where
  "variabilityAnalysis expo values attribute insights =
    (let cv = coefficientOfVariation values in
     if cv > Fin 20 then
       insights @ [\<lparr>type = warning, icon = BarChart,
         message = ''Variability: High variability detected in '' @ attrName attribute
           @ '' (CV: '' @ toFixed1 expo cv @ ''%). Consider monitoring more closely.''\<rparr>]
     else if cv < Fin 10 then
       insights @ [\<lparr>type = success, icon = BarChart,
         message = ''Variability: Low variability in '' @ attrName attribute
           @ '' (CV: '' @ toFixed1 expo cv @ ''%). Values are relatively consistent.''\<rparr>]
     else
       insights @ [\<lparr>type = info, icon = BarChart,
         message = ''Variability: Moderate variability in '' @ attrName attribute
           @ '' (CV: '' @ toFixed1 expo cv @ ''%).''\<rparr>])"

text \<open>"Outlier detection": \<open>values.sort(...)\<close> sorts the array in place, and the later
  reads of \<open>values\<close> see it sorted. \<open>outliersOf\<close> is the part after the sort, up to the
  array \<open>outliers\<close>; \<open>outlierInsight\<close> is the insight pushed.\<close>

definition outliersOf :: "jsnum list \<Rightarrow> jsnum list" where
  "outliersOf values =
    (let q1 = nth_num values (floor_index (length values) (25 / 100));
         q3 = nth_num values (floor_index (length values) (75 / 100));
         iqr = q3 - q1;
         lowerBound = q1 - Fin (15 / 10) * iqr;
         upperBound = q3 + Fin (15 / 10) * iqr
     in filter (\<lambda>v. v < lowerBound \<or> v > upperBound) values)"

definition outlierInsight :: "nat \<Rightarrow> AttributeKey \<Rightarrow> InsightData" where
  "outlierInsight n attribute =
     \<lparr>type = warning, icon = DirectHit,
      message = ''Outliers: '' @ decimal n
        @ '' outlier value(s) detected in '' @ attrName attribute
        @ ''. Review for data quality or significant events.''\<rparr>"

definition outlierDetection ::
  "jsnum list \<Rightarrow> AttributeKey \<Rightarrow> InsightData list \<Rightarrow> InsightData list"
where
  "outlierDetection values attribute insights =
    (let values = sortNumbers values;
         outliers = outliersOf values
     in if length outliers > 0 then insights @ [outlierInsight (length outliers) attribute]
        else insights)"

definition generateInsights ::
  "(real \<Rightarrow> string) \<Rightarrow> CombinedData list \<Rightarrow> AttributeKey \<Rightarrow> DataTypeFilter \<Rightarrow> InsightData list"
where
  "generateInsights expo data attribute dataTypeFilter =
    (let insights = [] in
     if length data = 0 then insights else
     let validData = filter (hasAttribute attribute) data in
     if length validData = 0 then insights else
     let insights = compareHistoricalPredicted expo validData attribute dataTypeFilter insights;
         insights = trendAnalysis validData attribute insights;
         values = map (\<lambda>d. asNumber (getAttr attribute d)) validData;
         insights = variabilityAnalysis expo values attribute insights;
         insights = outlierDetection values attribute insights
     in insights)"

section \<open>Working set and aggregate metrics (\<open>App.tsx\<close>)\<close>

text \<open>The date range \<open>{ start, end }\<close>.\<close>

record DateRange =
  range_start :: Date
  range_end :: Date

text \<open>Two \<open>Date\<close>s compare by their time values; a comparison with an invalid date is
  false.\<close>

text \<open>The predicate given to \<open>data.filter\<close>.\<close>

definition inWorkingSet :: "DateRange \<Rightarrow> AttributeKey \<Rightarrow> DataTypeFilter \<Rightarrow> CombinedData \<Rightarrow> bool"
where
  "inWorkingSet dateRange selectedAttribute dataTypeFilter d =
     (let dateInRange = (getTime (datetime d) \<ge> getTime (range_start dateRange)
                         \<and> getTime (datetime d) \<le> getTime (range_end dateRange));
          hasAttr = hasAttribute selectedAttribute d;
          matchesDataType = (dataTypeFilter = Both \<or> Only (dataType d) = dataTypeFilter)
      in dateInRange \<and> hasAttr \<and> matchesDataType)"

definition filteredData ::
  "CombinedData list \<Rightarrow> DateRange \<Rightarrow> AttributeKey \<Rightarrow> DataTypeFilter \<Rightarrow> CombinedData list"
where
  "filteredData data dateRange selectedAttribute dataTypeFilter =
     filter (inWorkingSet dateRange selectedAttribute dataTypeFilter) data"

record Metrics =
  average :: jsnum
  maxValue :: jsnum
  minValue :: jsnum
  totalRecords :: nat
  historicalRecords :: nat
  predictedRecords :: nat
  dateSpan :: jsnum
  changePercent :: "jsnum option"

definition metrics :: "CombinedData list \<Rightarrow> AttributeKey \<Rightarrow> DateRange \<Rightarrow> Metrics" where
  "metrics fData selectedAttribute dateRange =
    (if length fData = 0 then
       \<lparr>average = Fin 0, maxValue = Fin 0, minValue = Fin 0, totalRecords = 0,
        historicalRecords = 0, predictedRecords = 0, dateSpan = Fin 0, changePercent = None\<rparr>
     else
       let values = map (\<lambda>d. asNumber (getAttr selectedAttribute d)) fData;
           historicalData = filter (\<lambda>d. dataType d = Historical) fData;
           predictedData = filter (\<lambda>d. dataType d = Predicted) fData;
           changePercent =
             (if length historicalData > 0 \<and> length predictedData > 0 then
                let historicalMean =
                      sumAttr selectedAttribute historicalData / num (length historicalData);
                    predictedMean =
                      sumAttr selectedAttribute predictedData / num (length predictedData)
                in Some (((predictedMean - historicalMean) / historicalMean) * Fin 100)
              else None);
           dateSpan = Math_ceil ((getTime (range_end dateRange) - getTime (range_start dateRange))
                                  / Fin (1000 * 60 * 60 * 24))
       in \<lparr>average = sumNum values / num (length values),
           maxValue = Math_max values,
           minValue = Math_min values,
           totalRecords = length fData,
           historicalRecords = length historicalData,
           predictedRecords = length predictedData,
           dateSpan = dateSpan,
           changePercent = changePercent\<rparr>)"

section \<open>Histogram and quartiles (\<open>components/DistributionCharts.tsx\<close>)\<close>

text \<open>The component's own \<open>filteredData\<close>: by data type, then by presence of the
  attribute.\<close>

definition chartData ::
  "CombinedData list \<Rightarrow> AttributeKey \<Rightarrow> DataTypeFilter \<Rightarrow> CombinedData list"
where
  "chartData data attribute dataTypeFilter =
     filter (hasAttribute attribute)
       (filter (\<lambda>d. if dataTypeFilter = Both then True else Only (dataType d) = dataTypeFilter)
          data)"

text \<open>A histogram bin; \<open>countHistorical\<close> and \<open>countPredicted\<close> are the fields the source
  names \<open>Historical\<close> and \<open>Predicted\<close>, and \<open>bump\<close> is
  \<open>bin[d.dataType]++; bin.total++\<close>.\<close>

record Bin =
  range :: string
  midpoint :: jsnum
  countHistorical :: nat
  countPredicted :: nat
  total :: nat

fun bump :: "DataType \<Rightarrow> Bin \<Rightarrow> Bin" where
  "bump Historical b = b\<lparr>countHistorical := countHistorical b + 1, total := total b + 1\<rparr>"
| "bump Predicted b = b\<lparr>countPredicted := countPredicted b + 1, total := total b + 1\<rparr>"

text \<open>\<open>Math.min(20, Math.ceil(Math.sqrt(n)))\<close>, a whole number from 0 to 20.\<close>

definition binCountOf :: "nat \<Rightarrow> nat" where
  "binCountOf n = min 20 (nat \<lceil>sqrt (real n)\<rceil>)"

text \<open>The array position a bin index denotes once the range test has passed.\<close>

fun toIndex :: "jsnum \<Rightarrow> nat" where
  "toIndex (Fin r) = nat \<lfloor>r\<rfloor>"
| "toIndex x = 0"

definition binIndexOf :: "jsnum \<Rightarrow> jsnum \<Rightarrow> nat \<Rightarrow> jsnum \<Rightarrow> jsnum" where
  "binIndexOf minv binWidth binCount value =
     Math_min2 (Math_floor ((value - minv) / binWidth)) (num binCount - Fin 1)"

text \<open>The empty bins, and the body of \<open>filteredData.forEach\<close>, which updates one bin of
  the array \<open>bins\<close> or none.\<close>

definition emptyBins :: "(real \<Rightarrow> string) \<Rightarrow> jsnum \<Rightarrow> jsnum \<Rightarrow> nat \<Rightarrow> Bin list" where
  "emptyBins expo minv binWidth binCount =
     map (\<lambda>i.
       \<lparr>range = toFixed1 expo (minv + num i * binWidth) @ ''-''
                  @ toFixed1 expo (minv + num (i + 1) * binWidth),
        midpoint = minv + Fin (real i + 1 / 2) * binWidth,
        countHistorical = 0, countPredicted = 0, total = 0\<rparr>) [0..<binCount]"

definition histogramStep ::
  "AttributeKey \<Rightarrow> jsnum \<Rightarrow> jsnum \<Rightarrow> nat \<Rightarrow> Bin list \<Rightarrow> CombinedData \<Rightarrow> Bin list"
where
  "histogramStep attribute minv binWidth binCount bins d =
    (let value = asNumber (getAttr attribute d);
         binIndex = binIndexOf minv binWidth binCount value
     in if binIndex \<ge> Fin 0 \<and> binIndex < num (length bins)
        then bins[toIndex binIndex := bump (dataType d) (bins ! toIndex binIndex)]
        else bins)"

definition createHistogramData ::
  "(real \<Rightarrow> string) \<Rightarrow> CombinedData list \<Rightarrow> AttributeKey \<Rightarrow> Bin list"
where
  "createHistogramData expo fData attribute =
    (let values = map (\<lambda>d. asNumber (getAttr attribute d)) fData in
     if length values = 0 then [] else
     let minv = Math_min values;
         maxv = Math_max values;
         binCount = binCountOf (length values);
         binWidth = (maxv - minv) / num binCount;
         bins = emptyBins expo minv binWidth binCount
     in foldl (histogramStep attribute minv binWidth binCount) bins fData)"

text \<open>A read \<open>xs[i]\<close> whose result is stored: \<open>undefined\<close> (\<open>None\<close>) out of range.\<close>

definition elem_at :: "'a list \<Rightarrow> nat \<Rightarrow> 'a option" where
  "elem_at xs i = (if i < length xs then Some (xs ! i) else None)"

record Quartiles =
  q_min :: "jsnum option"
  q1 :: "jsnum option"
  median :: "jsnum option"
  q3 :: "jsnum option"
  q_max :: "jsnum option"
  mean :: jsnum

definition getQuartiles :: "jsnum list \<Rightarrow> Quartiles option" where
  "getQuartiles values =
    (if length values = 0 then None else
     let q1Index = floor_index (length values) (25 / 100);
         q2Index = floor_index (length values) (5 / 10);
         q3Index = floor_index (length values) (75 / 100)
     in Some \<lparr>q_min = elem_at values 0,
              q1 = elem_at values q1Index,
              median = elem_at values q2Index,
              q3 = elem_at values q3Index,
              q_max = elem_at values (length values - 1),
              mean = sumNum values / num (length values)\<rparr>)"

definition createBoxPlotData ::
  "CombinedData list \<Rightarrow> AttributeKey \<Rightarrow> DataTypeFilter \<Rightarrow> (DataType \<times> Quartiles) list"
where
  "createBoxPlotData fData attribute dataTypeFilter =
    (let historicalValues = sortNumbers (map (\<lambda>d. asNumber (getAttr attribute d))
                              (filter (\<lambda>d. dataType d = Historical) fData));
         predictedValues = sortNumbers (map (\<lambda>d. asNumber (getAttr attribute d))
                              (filter (\<lambda>d. dataType d = Predicted) fData));
         result = [];
         result =
           (if dataTypeFilter = Both \<or> dataTypeFilter = Only Historical then
              (case getQuartiles historicalValues of
                 Some histStats \<Rightarrow> result @ [(Historical, histStats)]
               | None \<Rightarrow> result)
            else result);
         result =
           (if dataTypeFilter = Both \<or> dataTypeFilter = Only Predicted then
              (case getQuartiles predictedValues of
                 Some predStats \<Rightarrow> result @ [(Predicted, predStats)]
               | None \<Rightarrow> result)
            else result)
     in result)"

section \<open>Normalising and merging rows (\<open>utils/csvParser.ts\<close>)\<close>

text \<open>
  A cell of a parsed row: the parser runs with dynamic typing, so a cell is a string, a
  finite number, a boolean or \<open>null\<close>, and a column the row lacks reads \<open>undefined\<close>. A row
  maps column names to cells.
\<close>

datatype cell = JUndefined | JNull | JBool bool | JNumber real | JString string

type_synonym row = "string \<Rightarrow> cell"

fun truthy :: "cell \<Rightarrow> bool" where
  "truthy JUndefined = False"
| "truthy JNull = False"
| "truthy (JBool b) = b"
| "truthy (JNumber x) = (x \<noteq> 0)"
| "truthy (JString s) = (s \<noteq> [])"

text \<open>\<open>new Date(t)\<close> for a number: the time value is \<open>t\<close> cut to a whole number, and the
  date is invalid when \<open>t\<close> is not finite or beyond 8.64e15 ms from the epoch.\<close>

fun newDateNum :: "jsnum \<Rightarrow> Date" where
  "newDateNum (Fin t) =
     (if \<bar>t\<bar> \<le> 8640000000000000 then Valid (if 0 \<le> t then \<lfloor>t\<rfloor> else \<lceil>t\<rceil>) else Invalid)"
| "newDateNum x = Invalid"

text \<open>\<open>new Date(v)\<close> for a cell: a string goes through the engine's date parser (the
  parameter \<open>parse\<close>), anything else through its number.\<close>

fun newDate :: "(string \<Rightarrow> Date) \<Rightarrow> cell \<Rightarrow> Date" where
  "newDate parse (JString s) = parse s"
| "newDate parse (JNumber x) = newDateNum (Fin x)"
| "newDate parse (JBool b) = newDateNum (Fin (if b then 1 else 0))"
| "newDate parse JNull = newDateNum (Fin 0)"
| "newDate parse JUndefined = Invalid"

text \<open>
  The synthetic instant of row \<open>index\<close>: 180 days before the clock's reading for
  historical rows, the reading itself for predicted ones, plus \<open>index\<close> hours. \<open>now\<close> is
  what \<open>Date.now()\<close> returns while the row is processed.
\<close>

definition synthetic :: "int \<Rightarrow> DataType \<Rightarrow> nat \<Rightarrow> Date" where
  "synthetic now dType index =
    (let baseDate = (if dType = Historical
                     then newDateNum (Fin (of_int now) - Fin (180 * 24 * 60 * 60 * 1000))
                     else newDateNum (Fin (of_int now)))
     in newDateNum (getTime baseDate + num index * Fin 60 * Fin 60 * Fin 1000))"

text \<open>
  One step of \<open>rawData.map\<close>. A row reads the clock once where it has no timestamp column
  and once more where its date is invalid; both reads are the value \<open>now\<close>. The spread
  \<open>...row\<close> copies the row's other columns into the record, where no function of the
  program reads them; the record of the model has the six fields that are read.
  \<open>numberCell\<close> is \<open>typeof c === 'number' ? c : undefined\<close>.
\<close>

fun numberCell :: "cell \<Rightarrow> real option" where
  "numberCell (JNumber x) = Some x"
| "numberCell c = None"

definition processRow ::
  "(string \<Rightarrow> Date) \<Rightarrow> int \<Rightarrow> DataType \<Rightarrow> row \<Rightarrow> nat \<Rightarrow> CombinedData"
where
  "processRow parse now dType r index =
    (let dt = (if truthy (r ''datetime'') then newDate parse (r ''datetime'')
               else if truthy (r ''date'') then newDate parse (r ''date'')
               else if truthy (r ''timestamp'') then newDate parse (r ''timestamp'')
               else synthetic now dType index);
         dt = (if isNaN (getTime dt) then synthetic now dType index else dt)
     in \<lparr>datetime = dt, dataType = dType,
         StressIndex = numberCell (r ''StressIndex''),
         HeartRate = numberCell (r ''HeartRate''),
         SystolicBP = numberCell (r ''SystolicBP''),
         DiastolicBP = numberCell (r ''DiastolicBP'')\<rparr>)"

text \<open>\<open>rawData.map((row, index) => ...)\<close>; \<open>clock index\<close> is the clock's reading while row
  \<open>index\<close> is processed.\<close>

definition processPatientData ::
  "(string \<Rightarrow> Date) \<Rightarrow> (nat \<Rightarrow> int) \<Rightarrow> row list \<Rightarrow> DataType \<Rightarrow> CombinedData list"
where
  "processPatientData parse clock rawData dType =
     map (\<lambda>(r, index). processRow parse (clock index) dType r index)
       (zip rawData [0..<length rawData])"

text \<open>The merge in \<open>loadCSVData\<close>, from the two parsed files on.\<close>

definition loadCSVData ::
  "(string \<Rightarrow> Date) \<Rightarrow> (nat \<Rightarrow> int) \<Rightarrow> (nat \<Rightarrow> int) \<Rightarrow> row list \<Rightarrow> row list
     \<Rightarrow> CombinedData list"
where
  "loadCSVData parse clockH clockP historicalRaw predictedRaw =
    (let historicalData = processPatientData parse clockH historicalRaw Historical;
         predictedData = processPatientData parse clockP predictedRaw Predicted
     in sort_by (\<lambda>a b. getTime (datetime a) - getTime (datetime b))
          (historicalData @ predictedData))"

section \<open>Arrays as objects in a store\<close>

text \<open>
  The functions above take and return the contents of arrays. In the program an array is
  an object: \<open>filter\<close> and \<open>map\<close> create a new one, while \<open>sort\<close> rearranges the array it
  is called on and returns that same array. To follow which array a call writes to, the
  store lists the arrays by address; a new array goes to the end. The functions below
  are the ones above with the arrays passed by address and the store threaded through.
\<close>

datatype array = Records "CombinedData list" | Numbers "jsnum list" | Bins "Bin list"

type_synonym store = "array list"

definition alloc :: "array \<Rightarrow> store \<Rightarrow> nat \<times> store" where
  "alloc a s = (length s, s @ [a])"

definition recordsAt :: "store \<Rightarrow> nat \<Rightarrow> CombinedData list" where
  "recordsAt s r =
     (if r < length s then (case s ! r of Records xs \<Rightarrow> xs | _ \<Rightarrow> []) else [])"

definition numbersAt :: "store \<Rightarrow> nat \<Rightarrow> jsnum list" where
  "numbersAt s r =
     (if r < length s then (case s ! r of Numbers xs \<Rightarrow> xs | _ \<Rightarrow> []) else [])"

definition binsAt :: "store \<Rightarrow> nat \<Rightarrow> Bin list" where
  "binsAt s r =
     (if r < length s then (case s ! r of Bins xs \<Rightarrow> xs | _ \<Rightarrow> []) else [])"

text \<open>\<open>xs.filter(p)\<close> and \<open>xs.map(f)\<close> on an array of records, \<open>xs.filter(p)\<close> on an
  array of numbers, and \<open>xs.sort((a, b) => a - b)\<close>, which writes to \<open>xs\<close>.\<close>

definition filter_st :: "(CombinedData \<Rightarrow> bool) \<Rightarrow> nat \<Rightarrow> store \<Rightarrow> nat \<times> store" where
  "filter_st p r s = alloc (Records (filter p (recordsAt s r))) s"

definition map_st :: "(CombinedData \<Rightarrow> jsnum) \<Rightarrow> nat \<Rightarrow> store \<Rightarrow> nat \<times> store" where
  "map_st f r s = alloc (Numbers (map f (recordsAt s r))) s"

definition sort_st :: "nat \<Rightarrow> store \<Rightarrow> nat \<times> store" where
  "sort_st r s =
     (r, if r < length s
         then (case s ! r of Numbers xs \<Rightarrow> s[r := Numbers (sortNumbers xs)] | _ \<Rightarrow> s)
         else s)"

text \<open>The working set and the metrics of \<open>App.tsx\<close>.\<close>

definition filteredData_st ::
  "nat \<Rightarrow> DateRange \<Rightarrow> AttributeKey \<Rightarrow> DataTypeFilter \<Rightarrow> store \<Rightarrow> nat \<times> store"
where
  "filteredData_st data dateRange selectedAttribute dataTypeFilter s =
     filter_st (inWorkingSet dateRange selectedAttribute dataTypeFilter) data s"

definition metrics_st :: "nat \<Rightarrow> AttributeKey \<Rightarrow> DateRange \<Rightarrow> store \<Rightarrow> Metrics \<times> store" where
  "metrics_st fData selectedAttribute dateRange s =
    (if length (recordsAt s fData) = 0 then (metrics [] selectedAttribute dateRange, s)
     else
       let result = metrics (recordsAt s fData) selectedAttribute dateRange;
           (values, s) = map_st (\<lambda>d. asNumber (getAttr selectedAttribute d)) fData s;
           (historicalData, s) = filter_st (\<lambda>d. dataType d = Historical) fData s;
           (predictedData, s) = filter_st (\<lambda>d. dataType d = Predicted) fData s
       in (result, s))"

text \<open>The blocks of \<open>generateInsights\<close>. The first two read \<open>validData\<close> and create two
  arrays each when they run; the last sorts the array \<open>values\<close> and creates
  \<open>outliers\<close>.\<close>

definition compare_st ::
  "(real \<Rightarrow> string) \<Rightarrow> nat \<Rightarrow> AttributeKey \<Rightarrow> DataTypeFilter \<Rightarrow> InsightData list \<Rightarrow> store
     \<Rightarrow> InsightData list \<times> store"
where
  "compare_st expo validData attribute dataTypeFilter insights s =
    (if dataTypeFilter = Both then
       let result = compareHistoricalPredicted expo (recordsAt s validData) attribute
                      dataTypeFilter insights;
           (historicalData, s) = filter_st (\<lambda>d. dataType d = Historical) validData s;
           (predictedData, s) = filter_st (\<lambda>d. dataType d = Predicted) validData s
       in (result, s)
     else (insights, s))"

definition trend_st ::
  "nat \<Rightarrow> AttributeKey \<Rightarrow> InsightData list \<Rightarrow> store \<Rightarrow> InsightData list \<times> store"
where
  "trend_st validData attribute insights s =
    (if length (recordsAt s validData) > 1 then
       let result = trendAnalysis (recordsAt s validData) attribute insights;
           (values, s) = map_st (\<lambda>d. asNumber (getAttr attribute d)) validData s;
           (timePoints, s) = alloc (Numbers (map num [0..<length (recordsAt s validData)])) s
       in (result, s)
     else (insights, s))"

definition outlier_st ::
  "nat \<Rightarrow> AttributeKey \<Rightarrow> InsightData list \<Rightarrow> store \<Rightarrow> InsightData list \<times> store"
where
  "outlier_st values attribute insights s =
    (let (sorted, s) = sort_st values s;
         (outliers, s) = alloc (Numbers (outliersOf (numbersAt s sorted))) s
     in if length (numbersAt s outliers) > 0
        then (insights @ [outlierInsight (length (numbersAt s outliers)) attribute], s)
        else (insights, s))"

definition generateInsights_st ::
  "(real \<Rightarrow> string) \<Rightarrow> nat \<Rightarrow> AttributeKey \<Rightarrow> DataTypeFilter \<Rightarrow> store
     \<Rightarrow> InsightData list \<times> store"
where
  "generateInsights_st expo data attribute dataTypeFilter s =
    (let insights = [] in
     if length (recordsAt s data) = 0 then (insights, s) else
     let (validData, s) = filter_st (hasAttribute attribute) data s in
     if length (recordsAt s validData) = 0 then (insights, s) else
     let (insights, s) = compare_st expo validData attribute dataTypeFilter insights s;
         (insights, s) = trend_st validData attribute insights s;
         (values, s) = map_st (\<lambda>d. asNumber (getAttr attribute d)) validData s;
         insights = variabilityAnalysis expo (numbersAt s values) attribute insights;
         (insights, s) = outlier_st values attribute insights s
     in (insights, s))"

text \<open>The component \<open>DistributionCharts\<close>: its filtered data, the histogram, whose loop
  writes to the new array \<open>bins\<close>, and the box plot, which sorts the arrays it has just
  made with \<open>map\<close>.\<close>

definition chartData_st :: "nat \<Rightarrow> AttributeKey \<Rightarrow> DataTypeFilter \<Rightarrow> store \<Rightarrow> nat \<times> store" where
  "chartData_st data attribute dataTypeFilter s =
    (let (byType, s) = filter_st
           (\<lambda>d. if dataTypeFilter = Both then True else Only (dataType d) = dataTypeFilter) data s
     in filter_st (hasAttribute attribute) byType s)"

definition createHistogramData_st ::
  "(real \<Rightarrow> string) \<Rightarrow> nat \<Rightarrow> AttributeKey \<Rightarrow> store \<Rightarrow> nat \<times> store"
where
  "createHistogramData_st expo fData attribute s =
    (let (values, s) = map_st (\<lambda>d. asNumber (getAttr attribute d)) fData s in
     if length (numbersAt s values) = 0 then alloc (Bins []) s else
     let minv = Math_min (numbersAt s values);
         maxv = Math_max (numbersAt s values);
         binCount = binCountOf (length (numbersAt s values));
         binWidth = (maxv - minv) / num binCount;
         (bins, s) = alloc (Bins (emptyBins expo minv binWidth binCount)) s;
         s = foldl (\<lambda>s d. s[bins := Bins (histogramStep attribute minv binWidth binCount
                                             (binsAt s bins) d)])
               s (recordsAt s fData)
     in (bins, s))"

definition createBoxPlotData_st ::
  "nat \<Rightarrow> AttributeKey \<Rightarrow> DataTypeFilter \<Rightarrow> store \<Rightarrow> (DataType \<times> Quartiles) list \<times> store"
where
  "createBoxPlotData_st fData attribute dataTypeFilter s =
    (let (historicalData, s) = filter_st (\<lambda>d. dataType d = Historical) fData s;
         (historicalMapped, s) = map_st (\<lambda>d. asNumber (getAttr attribute d)) historicalData s;
         (historicalValues, s) = sort_st historicalMapped s;
         (predictedData, s) = filter_st (\<lambda>d. dataType d = Predicted) fData s;
         (predictedMapped, s) = map_st (\<lambda>d. asNumber (getAttr attribute d)) predictedData s;
         (predictedValues, s) = sort_st predictedMapped s;
         result = [];
         result =
           (if dataTypeFilter = Both \<or> dataTypeFilter = Only Historical then
              (case getQuartiles (numbersAt s historicalValues) of
                 Some histStats \<Rightarrow> result @ [(Historical, histStats)]
               | None \<Rightarrow> result)
            else result);
         result =
           (if dataTypeFilter = Both \<or> dataTypeFilter = Only Predicted then
              (case getQuartiles (numbersAt s predictedValues) of
                 Some predStats \<Rightarrow> result @ [(Predicted, predStats)]
               | None \<Rightarrow> result)
            else result)
     in (result, s))"

section \<open>Vocabulary of the properties\<close>

text \<open>The block an insight comes from, read off its icon: 0 for the comparison of
  historical and predicted data, 1 for the trend, 2 for the variability, 3 for the
  outliers.\<close>

definition ruleOf :: "InsightData \<Rightarrow> nat" where
  "ruleOf i =
     (case icon i of
        WarningSign \<Rightarrow> 0 | CheckMark \<Rightarrow> 0 | InfoSign \<Rightarrow> 0
      | ChartUp \<Rightarrow> 1 | ChartDown \<Rightarrow> 1 | ArrowRight \<Rightarrow> 1
      | BarChart \<Rightarrow> 2
      | DirectHit \<Rightarrow> 3)"

text \<open>A record that carries a stress index and no other attribute.\<close>

definition stressRecord :: "Date \<Rightarrow> DataType \<Rightarrow> real \<Rightarrow> CombinedData" where
  "stressRecord t dType v =
     \<lparr>datetime = t, dataType = dType, StressIndex = Some v, HeartRate = None,
      SystolicBP = None, DiastolicBP = None\<rparr>"

text \<open>Three historical records with stress index 40, 50, 60 and three predicted ones
  with 70, 80, 90.\<close>

definition scenario :: "Date \<Rightarrow> Date \<Rightarrow> Date \<Rightarrow> Date \<Rightarrow> Date \<Rightarrow> Date \<Rightarrow> CombinedData list" where
  "scenario t1 t2 t3 t4 t5 t6 =
     [stressRecord t1 Historical 40, stressRecord t2 Historical 50,
      stressRecord t3 Historical 60, stressRecord t4 Predicted 70,
      stressRecord t5 Predicted 80, stressRecord t6 Predicted 90]"

definition sampleSet :: "CombinedData list" where
  "sampleSet = scenario (Valid 1) (Valid 2) (Valid 3) (Valid 4) (Valid 5) (Valid 6)"

text \<open>The records of one source, the values of the attribute that are present, and their
  arithmetic mean.\<close>

definition subsetOf :: "DataType \<Rightarrow> CombinedData list \<Rightarrow> CombinedData list" where
  "subsetOf t xs = filter (\<lambda>d. dataType d = t) xs"

definition valuesOf :: "AttributeKey \<Rightarrow> CombinedData list \<Rightarrow> real list" where
  "valuesOf a xs = List.map_filter (getAttr a) xs"

definition meanOf :: "AttributeKey \<Rightarrow> CombinedData list \<Rightarrow> real" where
  "meanOf a xs = sum_list (valuesOf a xs) / real (length xs)"

text \<open>The cell a row's timestamp is read from: the first of the columns \<open>datetime\<close>,
  \<open>date\<close>, \<open>timestamp\<close> whose value is truthy. The base instant of the synthetic
  timestamps, and the time value of a valid date.\<close>

definition timestampCell :: "row \<Rightarrow> cell option" where
  "timestampCell r =
     (if truthy (r ''datetime'') then Some (r ''datetime'')
      else if truthy (r ''date'') then Some (r ''date'')
      else if truthy (r ''timestamp'') then Some (r ''timestamp'')
      else None)"

definition syntheticBase :: "int \<Rightarrow> DataType \<Rightarrow> int" where
  "syntheticBase now dType = (if dType = Historical then now - 180 * 24 * 60 * 60 * 1000 else now)"

fun timeOf :: "Date \<Rightarrow> int" where
  "timeOf (Valid t) = t"
| "timeOf Invalid = 0"

text \<open>A clock is sane for \<open>n\<close> rows when each reading is past the first 180 days of the
  epoch and the synthetic instant of each row stays within the range of \<open>Date\<close>.\<close>

definition saneClock :: "(nat \<Rightarrow> int) \<Rightarrow> nat \<Rightarrow> bool" where
  "saneClock clock n =
     (\<forall>i<n. 15552000000 \<le> clock i \<and> clock i + int i * 3600000 \<le> 8640000000000000)"

section \<open>Arithmetic on finite numbers\<close>

lemma Fin_plus [simp]: "Fin a + Fin b = Fin (a + b)"
  by (simp add: plus_jsnum_def)

lemma Fin_minus [simp]: "Fin a - Fin b = Fin (a - b)"
  by (simp add: minus_jsnum_def)

lemma Fin_times [simp]: "Fin a * Fin b = Fin (a * b)"
  by (simp add: times_jsnum_def)

lemma Fin_divide [simp]: "b \<noteq> 0 \<Longrightarrow> Fin a / Fin b = Fin (a / b)"
  by (simp add: divide_jsnum_def)

lemma Fin_less [simp]: "(Fin a < Fin b) = (a < b)"
  by (simp add: less_jsnum_def)

lemma Fin_le [simp]: "(Fin a \<le> Fin b) = (a \<le> b)"
  by (auto simp add: less_eq_jsnum_def)

lemma NaN_less [simp]: "(NaN < x) = False" "(x < NaN) = False"
  by (cases x; simp add: less_jsnum_def)+

lemma NaN_le [simp]: "(NaN \<le> x) = False" "(x \<le> NaN) = False"
  by (cases x; simp add: less_eq_jsnum_def)+

lemma zero_div_zero [simp]: "Fin 0 / Fin 0 = NaN"
  by (simp add: divide_jsnum_def)

section \<open>Properties of \<open>generateInsights\<close>\<close>

lemma generateInsights_nil: "generateInsights expo [] attribute dataTypeFilter = []"
  by (simp add: generateInsights_def)

text \<open>Each block appends to the array it is given, so the result is the concatenation of
  what the four blocks push.\<close>

lemma compare_append:
  "compareHistoricalPredicted expo vd a f ins = ins @ compareHistoricalPredicted expo vd a f []"
  by (simp add: compareHistoricalPredicted_def Let_def)

lemma trend_append: "trendAnalysis vd a ins = ins @ trendAnalysis vd a []"
  by (simp add: trendAnalysis_def Let_def)

lemma variability_append:
  "variabilityAnalysis expo vs a ins = ins @ variabilityAnalysis expo vs a []"
  by (simp add: variabilityAnalysis_def Let_def)

lemma outlier_append: "outlierDetection vs a ins = ins @ outlierDetection vs a []"
  by (simp add: outlierDetection_def outlierInsight_def Let_def)

lemma generateInsights_blocks:
  assumes "filter (hasAttribute a) data \<noteq> []"
  shows "generateInsights expo data a f =
     compareHistoricalPredicted expo (filter (hasAttribute a) data) a f []
     @ trendAnalysis (filter (hasAttribute a) data) a []
     @ variabilityAnalysis expo
         (map (\<lambda>d. asNumber (getAttr a d)) (filter (hasAttribute a) data)) a []
     @ outlierDetection
         (map (\<lambda>d. asNumber (getAttr a d)) (filter (hasAttribute a) data)) a []"
proof -
  from assms have "data \<noteq> []" by auto
  with assms show ?thesis
    by (simp add: generateInsights_def Let_def)
      (subst outlier_append, subst variability_append, subst trend_append, simp)
qed

lemma generateInsights_no_valid:
  "filter (hasAttribute a) data = [] \<Longrightarrow> generateInsights expo data a f = []"
  by (simp add: generateInsights_def)

lemma compare_length: "length (compareHistoricalPredicted expo vd a f []) \<le> 1"
  by (simp add: compareHistoricalPredicted_def Let_def)

lemma trend_length: "length (trendAnalysis vd a []) \<le> 1"
  by (simp add: trendAnalysis_def Let_def)

lemma variability_length: "length (variabilityAnalysis expo vs a []) = 1"
  by (simp add: variabilityAnalysis_def Let_def)

lemma outlier_length: "length (outlierDetection vs a []) \<le> 1"
  by (simp add: outlierDetection_def outlierInsight_def Let_def)

lemma compare_rule: "i \<in> set (compareHistoricalPredicted expo vd a f []) \<Longrightarrow> ruleOf i = 0"
  by (auto simp add: compareHistoricalPredicted_def Let_def ruleOf_def split: if_splits)

lemma trend_rule: "i \<in> set (trendAnalysis vd a []) \<Longrightarrow> ruleOf i = 1"
  by (auto simp add: trendAnalysis_def Let_def ruleOf_def split: if_splits)

lemma variability_rule: "i \<in> set (variabilityAnalysis expo vs a []) \<Longrightarrow> ruleOf i = 2"
  by (auto simp add: variabilityAnalysis_def Let_def ruleOf_def split: if_splits)

lemma outlier_rule: "i \<in> set (outlierDetection vs a []) \<Longrightarrow> ruleOf i = 3"
  by (auto simp add: outlierDetection_def outlierInsight_def Let_def ruleOf_def split: if_splits)

lemma short_sorted_wrt: "length xs \<le> 1 \<Longrightarrow> sorted_wrt P (map g xs)"
  by (cases xs) auto

lemma generateInsights_rule_order:
  "sorted_wrt (<) (map ruleOf (generateInsights expo data a f))"
proof (cases "filter (hasAttribute a) data = []")
  case True
  then show ?thesis by (simp add: generateInsights_no_valid)
next
  case False
  let ?vd = "filter (hasAttribute a) data"
  let ?vs = "map (\<lambda>d. asNumber (getAttr a d)) ?vd"
  have s1: "sorted_wrt (<) (map ruleOf (compareHistoricalPredicted expo ?vd a f []))"
    by (rule short_sorted_wrt[OF compare_length])
  have s2: "sorted_wrt (<) (map ruleOf (trendAnalysis ?vd a []))"
    by (rule short_sorted_wrt[OF trend_length])
  have s3: "sorted_wrt (<) (map ruleOf (variabilityAnalysis expo ?vs a []))"
    by (rule short_sorted_wrt) (simp add: variability_length)
  have s4: "sorted_wrt (<) (map ruleOf (outlierDetection ?vs a []))"
    by (rule short_sorted_wrt[OF outlier_length])
  show ?thesis
    unfolding generateInsights_blocks[OF False] map_append sorted_wrt_append
    using s1 s2 s3 s4
    by (auto dest!: compare_rule trend_rule variability_rule outlier_rule)
qed

subsection \<open>The scenario of three historical and three predicted records\<close>

lemma toFixed1_60: "toFixed1_pos expo 60 = ''60.0''"
  by (simp add: toFixed1_pos_def Let_def decimal.simps digit_def)

lemma scenario_valid:
  "filter (hasAttribute StressIndexKey) (scenario t1 t2 t3 t4 t5 t6) = scenario t1 t2 t3 t4 t5 t6"
  by (simp add: scenario_def stressRecord_def hasAttribute_def)

lemma scenario_compare:
  "compareHistoricalPredicted expo (scenario t1 t2 t3 t4 t5 t6) StressIndexKey Both [] =
     [\<lparr>type = warning, icon = WarningSign,
       message = ''StressIndex is projected to increase by 60.0%. Preventive measures recommended.''\<rparr>]"
  by (simp add: compareHistoricalPredicted_def scenario_def stressRecord_def sumAttr_def
      num_def Let_def toFixed1_60)

lemma scenario_hd:
  "hd (generateInsights expo (scenario t1 t2 t3 t4 t5 t6) StressIndexKey Both) =
     \<lparr>type = warning, icon = WarningSign,
      message = ''StressIndex is projected to increase by 60.0%. Preventive measures recommended.''\<rparr>"
proof -
  have ne: "filter (hasAttribute StressIndexKey) (scenario t1 t2 t3 t4 t5 t6) \<noteq> []"
    unfolding scenario_valid by (simp add: scenario_def)
  show ?thesis
    unfolding generateInsights_blocks[OF ne] scenario_valid scenario_compare by simp
qed

lemma scenario_message_contains:
  "sublist ''increase by 60.0%''
     ''StressIndex is projected to increase by 60.0%. Preventive measures recommended.''"
proof -
  have "''StressIndex is projected to increase by 60.0%. Preventive measures recommended.'' =
      ''StressIndex is projected to '' @ ''increase by 60.0%''
        @ ''. Preventive measures recommended.''"
    by simp
  then show ?thesis unfolding sublist_def by blast
qed

lemma scenario_changePercent:
  "changePercent (metrics (scenario t1 t2 t3 t4 t5 t6) StressIndexKey dateRange) = Some (Fin 60)"
  by (simp add: metrics_def scenario_def stressRecord_def sumAttr_def num_def Let_def)

text \<open>
  C4. The insights come in the order of the four blocks (comparison, trend, variability,
  outliers), each block giving at most one. For three historical records with stress
  index 40, 50, 60 and three predicted ones with 70, 80, 90, at any timestamps and with the
  filter Both, the change is 60 percent and the first insight is a warning whose message
  contains "increase by 60.0%".
\<close>

theorem generateInsights_fixed_order:
  "sorted_wrt (<) (map ruleOf (generateInsights expo data attribute dataTypeFilter))
   \<and> changePercent (metrics (scenario t1 t2 t3 t4 t5 t6) StressIndexKey dateRange)
       = Some (Fin 60)
   \<and> type (hd (generateInsights expo (scenario t1 t2 t3 t4 t5 t6) StressIndexKey Both))
       = warning
   \<and> sublist ''increase by 60.0%''
       (message (hd (generateInsights expo (scenario t1 t2 t3 t4 t5 t6) StressIndexKey Both)))"
  using generateInsights_rule_order scenario_changePercent scenario_message_contains
  by (simp add: scenario_hd)


subsection \<open>Exactly one variability insight\<close>

lemma variability_count:
  "length (filter (\<lambda>i. icon i = BarChart) (variabilityAnalysis expo vs a [])) = 1"
  by (simp add: variabilityAnalysis_def Let_def)

lemma compare_no_variability:
  "filter (\<lambda>i. icon i = BarChart) (compareHistoricalPredicted expo vd a f []) = []"
  by (simp add: compareHistoricalPredicted_def Let_def)

lemma trend_no_variability: "filter (\<lambda>i. icon i = BarChart) (trendAnalysis vd a []) = []"
  by (simp add: trendAnalysis_def Let_def)

lemma outlier_no_variability:
  "filter (\<lambda>i. icon i = BarChart) (outlierDetection vs a []) = []"
  by (simp add: outlierDetection_def outlierInsight_def Let_def)

lemma variability_message:
  "i \<in> set (variabilityAnalysis expo vs a []) \<Longrightarrow>
     icon i = BarChart \<and> prefix ''Variability: '' (message i)"
  by (auto simp add: variabilityAnalysis_def Let_def split: if_splits)

lemma compare_message:
  "i \<in> set (compareHistoricalPredicted expo vd a f []) \<Longrightarrow>
     icon i \<noteq> BarChart \<and> \<not> prefix ''Variability: '' (message i)"
  by (cases a) (auto simp add: compareHistoricalPredicted_def Let_def split: if_splits)

lemma trend_message:
  "i \<in> set (trendAnalysis vd a []) \<Longrightarrow>
     icon i \<noteq> BarChart \<and> \<not> prefix ''Variability: '' (message i)"
  by (auto simp add: trendAnalysis_def Let_def split: if_splits)

lemma outlier_message:
  "i \<in> set (outlierDetection vs a []) \<Longrightarrow>
     icon i \<noteq> BarChart \<and> \<not> prefix ''Variability: '' (message i)"
  by (auto simp add: outlierDetection_def outlierInsight_def Let_def split: if_splits)

text \<open>
  C10. When the attribute is present on at least one record of the input, the result
  holds exactly one variability insight (the one with the bar chart icon, whose message
  starts "Variability:"), and between one and four insights in all.
\<close>

theorem generateInsights_one_variability:
  assumes "\<exists>d\<in>set data. hasAttribute attribute d"
  shows "length (filter (\<lambda>i. icon i = BarChart)
                  (generateInsights expo data attribute dataTypeFilter)) = 1
     \<and> (\<forall>i\<in>set (generateInsights expo data attribute dataTypeFilter).
           icon i = BarChart \<longleftrightarrow> prefix ''Variability: '' (message i))
     \<and> 1 \<le> length (generateInsights expo data attribute dataTypeFilter)
     \<and> length (generateInsights expo data attribute dataTypeFilter) \<le> 4"
proof -
  let ?vd = "filter (hasAttribute attribute) data"
  let ?vs = "map (\<lambda>d. asNumber (getAttr attribute d)) ?vd"
  have ne: "?vd \<noteq> []"
    using assms by (auto simp: filter_empty_conv)
  note l = compare_length[of expo ?vd attribute dataTypeFilter] trend_length[of ?vd attribute]
    variability_length[of expo ?vs attribute] outlier_length[of ?vs attribute]
  have p: "\<forall>i\<in>set (generateInsights expo data attribute dataTypeFilter).
           icon i = BarChart \<longleftrightarrow> prefix ''Variability: '' (message i)"
    unfolding generateInsights_blocks[OF ne]
    using compare_message[of _ expo ?vd attribute dataTypeFilter] trend_message[of _ ?vd attribute]
      variability_message[of _ expo ?vs attribute] outlier_message[of _ ?vs attribute]
    by auto
  have c: "length (filter (\<lambda>i. icon i = BarChart)
                  (generateInsights expo data attribute dataTypeFilter)) = 1"
    unfolding generateInsights_blocks[OF ne]
    by (simp add: variability_count compare_no_variability trend_no_variability
        outlier_no_variability)
  have n: "1 \<le> length (generateInsights expo data attribute dataTypeFilter)
     \<and> length (generateInsights expo data attribute dataTypeFilter) \<le> 4"
    unfolding generateInsights_blocks[OF ne] using l by simp
  from p c n show ?thesis by blast
qed

theorem generateInsights_one_variability_witness:
  "(\<exists>d\<in>set [stressRecord (Valid 0) Historical 0]. hasAttribute StressIndexKey d)
   \<and> length (filter (\<lambda>i. icon i = BarChart)
        (generateInsights (\<lambda>x. []) [stressRecord (Valid 0) Historical 0] StressIndexKey Both)) = 1
   \<and> length (generateInsights (\<lambda>x. []) [stressRecord (Valid 0) Historical 0] StressIndexKey Both)
       \<le> 4"
proof -
  have h: "\<exists>d\<in>set [stressRecord (Valid 0) Historical 0]. hasAttribute StressIndexKey d"
    by (simp add: stressRecord_def hasAttribute_def)
  show ?thesis
    using h generateInsights_one_variability[OF h, of "\<lambda>x. []" Both] by simp
qed

section \<open>The empty working set\<close>

text \<open>
  C5. On an empty working set the metrics are all zero with no change percentage, there
  are no insights, and the histogram and the box plot are empty; every function of the
  model is total, so none of them fails.
\<close>

theorem empty_working_set:
  "metrics [] attribute dateRange =
     \<lparr>average = Fin 0, maxValue = Fin 0, minValue = Fin 0, totalRecords = 0,
      historicalRecords = 0, predictedRecords = 0, dateSpan = Fin 0, changePercent = None\<rparr>
   \<and> generateInsights expo [] attribute dataTypeFilter = []
   \<and> createHistogramData expo [] attribute = []
   \<and> createBoxPlotData [] attribute dataTypeFilter = []"
  by (simp add: metrics_def generateInsights_nil createHistogramData_def createBoxPlotData_def
      getQuartiles_def sortNumbers_def sort_by_def)

section \<open>Sums, means and sorting of present values\<close>

lemma foldl_sumAttr:
  "\<forall>d\<in>set xs. hasAttribute a d \<Longrightarrow>
   foldl (\<lambda>sum d. sum + asNumber (getAttr a d)) (Fin s) xs = Fin (s + sum_list (valuesOf a xs))"
proof (induction xs arbitrary: s)
  case Nil
  then show ?case by (simp add: valuesOf_def)
next
  case (Cons d xs)
  from Cons.prems obtain v where v: "getAttr a d = Some v"
    by (auto simp: hasAttribute_def)
  from Cons.prems have "\<forall>d\<in>set xs. hasAttribute a d" by simp
  from Cons.IH[OF this, of "s + v"] v show ?case
    by (simp add: valuesOf_def add.assoc)
qed

lemma sumAttr_present:
  "\<forall>d\<in>set xs. hasAttribute a d \<Longrightarrow> sumAttr a xs = Fin (sum_list (valuesOf a xs))"
  using foldl_sumAttr[of xs a 0] by (simp add: sumAttr_def)

lemma mean_present:
  "\<forall>d\<in>set xs. hasAttribute a d \<Longrightarrow> xs \<noteq> [] \<Longrightarrow>
     sumAttr a xs / num (length xs) = Fin (meanOf a xs)"
  by (simp add: sumAttr_present num_def meanOf_def)

lemma values_present:
  "\<forall>d\<in>set xs. hasAttribute a d \<Longrightarrow>
     map (\<lambda>d. asNumber (getAttr a d)) xs = map Fin (valuesOf a xs)"
proof (induction xs)
  case Nil
  then show ?case by (simp add: valuesOf_def)
next
  case (Cons d xs)
  from Cons.prems obtain v where "getAttr a d = Some v"
    by (auto simp: hasAttribute_def)
  with Cons show ?case by (simp add: valuesOf_def)
qed

lemma length_valuesOf: "\<forall>d\<in>set xs. hasAttribute a d \<Longrightarrow> length (valuesOf a xs) = length xs"
  using values_present[of xs a] by (metis length_map)

lemma insert_by_Fin: "insert_by (\<lambda>a b. a - b) (Fin x) (map Fin ys) = map Fin (insort x ys)"
  by (induction ys) auto

lemma sortNumbers_Fin: "sortNumbers (map Fin rs) = map Fin (sort rs)"
  unfolding sortNumbers_def sort_by_def sort_key_def
  by (induction rs) (simp_all add: insert_by_Fin)

lemma floor_index_quarter: "floor_index n (1 / 4) = n div 4"
proof -
  have "real n * (1 / 4) = real n / real 4" by simp
  then show ?thesis unfolding floor_index_def
    by (simp only: floor_divide_of_nat_eq nat_int)
qed

lemma floor_index_half: "floor_index n (1 / 2) = n div 2"
proof -
  have "real n * (1 / 2) = real n / real 2" by simp
  then show ?thesis unfolding floor_index_def
    by (simp only: floor_divide_of_nat_eq nat_int)
qed

lemma floor_index_three_quarters: "floor_index n (3 / 4) = (3 * n) div 4"
proof -
  have "real n * (3 / 4) = real (3 * n) / real 4" by simp
  then show ?thesis unfolding floor_index_def
    by (simp only: floor_divide_of_nat_eq nat_int)
qed

lemma foldl_sumNum: "foldl (\<lambda>a b. a + b) (Fin s) (map Fin rs) = Fin (s + sum_list rs)"
  by (induction rs arbitrary: s) (simp_all add: add.assoc)

lemma sumNum_Fin: "sumNum (map Fin rs) = Fin (sum_list rs)"
  using foldl_sumNum[of 0 rs] by (simp add: sumNum_def)

lemma sum_list_sort: "sum_list (sort rs) = sum_list (rs :: real list)"
  by (metis mset_sort sum_mset_sum_list)

section \<open>The change between historical and predicted means\<close>

lemma filteredData_present: "d \<in> set (filteredData data dr a f) \<Longrightarrow> hasAttribute a d"
  by (simp add: filteredData_def inWorkingSet_def Let_def)

lemma filteredData_one_type: "d \<in> set (filteredData data dr a (Only t)) \<Longrightarrow> dataType d = t"
  by (simp add: filteredData_def inWorkingSet_def Let_def)

lemma metrics_changePercent_eq:
  assumes "\<forall>d\<in>set ws. hasAttribute a d"
  shows "changePercent (metrics ws a dr) =
     (if subsetOf Historical ws \<noteq> [] \<and> subsetOf Predicted ws \<noteq> []
      then Some ((Fin (meanOf a (subsetOf Predicted ws)) - Fin (meanOf a (subsetOf Historical ws)))
                 / Fin (meanOf a (subsetOf Historical ws)) * Fin 100)
      else None)"
proof -
  have h: "\<forall>d\<in>set (filter (\<lambda>d. dataType d = Historical) ws). hasAttribute a d"
    and p: "\<forall>d\<in>set (filter (\<lambda>d. dataType d = Predicted) ws). hasAttribute a d"
    using assms by auto
  show ?thesis
  proof (cases "ws = []")
    case True
    then show ?thesis by (simp add: metrics_def subsetOf_def)
  next
    case False
    then show ?thesis
      using mean_present[OF h] mean_present[OF p]
      by (simp add: metrics_def Let_def subsetOf_def)
  qed
qed

lemma compare_emits_iff:
  "(compareHistoricalPredicted expo ws a f [] \<noteq> []) =
     (f = Both \<and> subsetOf Historical ws \<noteq> [] \<and> subsetOf Predicted ws \<noteq> [])"
  by (simp add: compareHistoricalPredicted_def Let_def subsetOf_def)

lemma one_source_empty:
  assumes "f \<noteq> Both"
  shows "subsetOf Historical (filteredData data dr a f) = []
     \<or> subsetOf Predicted (filteredData data dr a f) = []"
proof -
  from assms obtain t where f: "f = Only t" by (cases f) auto
  show ?thesis
    by (cases t) (auto simp: f subsetOf_def filter_empty_conv dest: filteredData_one_type)
qed

text \<open>
  C3. On a working set, the change percentage of the metrics is defined exactly when the
  working set holds both historical and predicted records; it is then the predicted
  mean minus the historical mean, divided by the historical mean, times 100, and it is
  undefined otherwise. The comparison insight exists in exactly the same case.
\<close>

theorem changePercent_defined_iff:
  "(changePercent (metrics (filteredData data dr a f) a dr) \<noteq> None)
     = (subsetOf Historical (filteredData data dr a f) \<noteq> []
        \<and> subsetOf Predicted (filteredData data dr a f) \<noteq> [])
   \<and> changePercent (metrics (filteredData data dr a f) a dr) =
       (if subsetOf Historical (filteredData data dr a f) \<noteq> []
           \<and> subsetOf Predicted (filteredData data dr a f) \<noteq> []
        then Some ((Fin (meanOf a (subsetOf Predicted (filteredData data dr a f)))
                    - Fin (meanOf a (subsetOf Historical (filteredData data dr a f))))
                   / Fin (meanOf a (subsetOf Historical (filteredData data dr a f))) * Fin 100)
        else None)
   \<and> (compareHistoricalPredicted expo (filteredData data dr a f) a f [] \<noteq> [])
     = (subsetOf Historical (filteredData data dr a f) \<noteq> []
        \<and> subsetOf Predicted (filteredData data dr a f) \<noteq> [])"
proof -
  let ?ws = "filteredData data dr a f"
  have ws: "\<forall>d\<in>set ?ws. hasAttribute a d"
    by (simp add: filteredData_present)
  note eq = metrics_changePercent_eq[OF ws, of dr]
  have c: "(compareHistoricalPredicted expo ?ws a f [] \<noteq> [])
     = (subsetOf Historical ?ws \<noteq> [] \<and> subsetOf Predicted ?ws \<noteq> [])"
    unfolding compare_emits_iff using one_source_empty[of f data dr a] by blast
  from eq c show ?thesis by simp
qed

theorem changePercent_defined_iff_witness:
  "changePercent (metrics (filteredData
       sampleSet
       \<lparr>range_start = Valid 0, range_end = Valid 10\<rparr> StressIndexKey Both) StressIndexKey
       \<lparr>range_start = Valid 0, range_end = Valid 10\<rparr>) = Some (Fin 60)
   \<and> changePercent (metrics (filteredData
       sampleSet
       \<lparr>range_start = Valid 0, range_end = Valid 10\<rparr> StressIndexKey (Only Historical))
       StressIndexKey \<lparr>range_start = Valid 0, range_end = Valid 10\<rparr>) = None"
  using changePercent_defined_iff[of
      sampleSet
      "\<lparr>range_start = Valid 0, range_end = Valid 10\<rparr>" StressIndexKey Both]
    changePercent_defined_iff[of
      sampleSet
      "\<lparr>range_start = Valid 0, range_end = Valid 10\<rparr>" StressIndexKey "Only Historical"]
  by (simp add: filteredData_def inWorkingSet_def sampleSet_def scenario_def stressRecord_def hasAttribute_def subsetOf_def
      meanOf_def valuesOf_def Let_def)

section \<open>Quartiles\<close>

lemma getQuartiles_sorted:
  assumes "rs \<noteq> []"
  shows "getQuartiles (sortNumbers (map Fin rs)) =
     Some \<lparr>q_min = Some (Fin (sort rs ! 0)),
           q1 = Some (Fin (sort rs ! (length rs div 4))),
           median = Some (Fin (sort rs ! (length rs div 2))),
           q3 = Some (Fin (sort rs ! ((3 * length rs) div 4))),
           q_max = Some (Fin (sort rs ! (length rs - 1))),
           mean = Fin (sum_list rs / real (length rs))\<rparr>"
proof -
  from assms have n: "0 < length rs" by simp
  then have i: "length rs div 4 < length rs" "length rs div 2 < length rs"
    "(3 * length rs) div 4 < length rs" by presburger+
  show ?thesis
    using n i
    by (simp add: getQuartiles_def sortNumbers_Fin floor_index_quarter floor_index_half
        floor_index_three_quarters elem_at_def sumNum_Fin sum_list_sort num_def Let_def)
qed

lemma getQuartiles_empty: "getQuartiles (sortNumbers (map Fin [])) = None"
  by (simp add: getQuartiles_def sortNumbers_def sort_by_def)


lemma map_of_push:
  "map_of (case x of Some q \<Rightarrow> xs @ [(k, q)] | None \<Rightarrow> xs) k' =
     (case map_of xs k' of Some v \<Rightarrow> Some v | None \<Rightarrow> if k' = k then x else None)"
  by (cases x) (auto simp: map_add_def split: option.split)

lemma subset_values:
  assumes "\<forall>d\<in>set fData. hasAttribute a d"
  shows "map (\<lambda>d. asNumber (getAttr a d)) (filter (\<lambda>d. dataType d = u) fData)
      = map Fin (valuesOf a (subsetOf u fData))"
  unfolding subsetOf_def using assms by (intro values_present) auto

lemma createBoxPlotData_entry:
  assumes ws: "\<forall>d\<in>set fData. hasAttribute a d"
  shows "map_of (createBoxPlotData fData a f) t =
     (if f = Both \<or> f = Only t
      then getQuartiles (sortNumbers (map Fin (valuesOf a (subsetOf t fData)))) else None)"
proof (cases f)
  case Both
  then show ?thesis
    by (cases t)
      (simp_all add: createBoxPlotData_def Let_def subset_values[OF ws] map_of_push
        split: option.split)
next
  case (Only u)
  then show ?thesis
    by (cases t; cases u)
      (simp_all add: createBoxPlotData_def Let_def subset_values[OF ws] map_of_push
        split: option.split)
qed

text \<open>
  C8. For a source whose records in the working set are not empty and which the filter
  includes, the box plot's entry takes, from the values sorted ascending, the first as
  minimum, the elements at indices \<open>n div 4\<close>, \<open>n div 2\<close> and \<open>3 n div 4\<close> (the floors of
  \<open>0.25 n\<close>, \<open>0.5 n\<close>, \<open>0.75 n\<close>) as Q1, median and Q3, the last as maximum, and the
  arithmetic mean. For the sorted values 10, 20, 30, 40 this gives Q1 = 20, median = 30
  and Q3 = 40.
\<close>

theorem quartiles_nearest_rank:
  assumes "\<forall>d\<in>set fData. hasAttribute a d"
    and "subsetOf t fData \<noteq> []"
    and "f = Both \<or> f = Only t"
  shows "(let rs = valuesOf a (subsetOf t fData); s = sort rs; n = length rs in
          sorted s \<and>
          map_of (createBoxPlotData fData a f) t =
            Some \<lparr>q_min = Some (Fin (hd s)),
                  q1 = Some (Fin (s ! (n div 4))),
                  median = Some (Fin (s ! (n div 2))),
                  q3 = Some (Fin (s ! ((3 * n) div 4))),
                  q_max = Some (Fin (last s)),
                  mean = Fin (sum_list rs / real n)\<rparr>)
     \<and> getQuartiles [Fin 10, Fin 20, Fin 30, Fin 40] =
         Some \<lparr>q_min = Some (Fin 10), q1 = Some (Fin 20), median = Some (Fin 30),
               q3 = Some (Fin 40), q_max = Some (Fin 40), mean = Fin 25\<rparr>"
proof -
  let ?rs = "valuesOf a (subsetOf t fData)"
  have p: "\<forall>d\<in>set (subsetOf t fData). hasAttribute a d"
    using assms(1) by (simp add: subsetOf_def)
  have ne: "?rs \<noteq> []"
    using length_valuesOf[OF p] assms(2) by auto
  then have s: "sort ?rs \<noteq> []" "length (sort ?rs) = length ?rs"
    by (auto simp: sort_key_def[symmetric] dest: arg_cong[where f = length])
  have hl: "hd (sort ?rs) = sort ?rs ! 0" "last (sort ?rs) = sort ?rs ! (length ?rs - 1)"
    using s by (simp_all add: hd_conv_nth last_conv_nth)
  have ex: "getQuartiles [Fin 10, Fin 20, Fin 30, Fin 40] =
         Some \<lparr>q_min = Some (Fin 10), q1 = Some (Fin 20), median = Some (Fin 30),
               q3 = Some (Fin 40), q_max = Some (Fin 40), mean = Fin 25\<rparr>"
    by (simp add: getQuartiles_def floor_index_def elem_at_def sumNum_def num_def Let_def)
  show ?thesis
    unfolding Let_def createBoxPlotData_entry[OF assms(1)] hl
    using assms(3) getQuartiles_sorted[OF ne] ex by simp
qed

theorem quartiles_nearest_rank_witness:
  "subsetOf Historical sampleSet \<noteq> []
   \<and> map_of (createBoxPlotData sampleSet StressIndexKey Both) Historical =
       Some \<lparr>q_min = Some (Fin 40), q1 = Some (Fin 40), median = Some (Fin 50),
             q3 = Some (Fin 60), q_max = Some (Fin 60), mean = Fin 50\<rparr>"
proof -
  have h1: "\<forall>d\<in>set sampleSet. hasAttribute StressIndexKey d"
    by (simp add: sampleSet_def scenario_def stressRecord_def hasAttribute_def)
  have h2: "subsetOf Historical sampleSet \<noteq> []"
    by (simp add: sampleSet_def scenario_def stressRecord_def subsetOf_def)
  have v: "valuesOf StressIndexKey (subsetOf Historical sampleSet)
      = [40, 50, 60]"
    by (simp add: sampleSet_def scenario_def stressRecord_def subsetOf_def valuesOf_def)
  show ?thesis
    using h2 quartiles_nearest_rank[OF h1 h2, of Both]
    by (simp add: v Let_def)
qed

section \<open>Timestamps of normalised rows\<close>

lemma newDateNum_int:
  "0 \<le> k \<Longrightarrow> k \<le> 8640000000000000 \<Longrightarrow> newDateNum (Fin (of_int k)) = Valid k"
proof -
  assume a: "0 \<le> k" "k \<le> 8640000000000000"
  then have "\<bar>real_of_int k\<bar> \<le> 8640000000000000"
    by (metis abs_of_nonneg of_int_0_le_iff of_int_le_iff of_int_numeral)
  with a show ?thesis by simp
qed

lemma synthetic_valid:
  assumes "15552000000 \<le> now" and "now + int i * 3600000 \<le> 8640000000000000"
  shows "synthetic now dType i = Valid (syntheticBase now dType + int i * 3600000)"
proof -
  let ?b = "syntheticBase now dType"
  have b: "0 \<le> ?b" "?b \<le> 8640000000000000" "0 \<le> ?b + int i * 3600000"
    "?b + int i * 3600000 \<le> 8640000000000000"
    using assms by (auto simp: syntheticBase_def)
  have h: "Fin (of_int now) - Fin (180 * 24 * 60 * 60 * 1000)
      = Fin (of_int (now - 180 * 24 * 60 * 60 * 1000))"
    by simp
  have base: "(if dType = Historical
               then newDateNum (Fin (of_int now) - Fin (180 * 24 * 60 * 60 * 1000))
               else newDateNum (Fin (of_int now))) = newDateNum (Fin (of_int ?b))"
    unfolding h syntheticBase_def by (cases dType) simp_all
  have "getTime (Valid ?b) + num i * Fin 60 * Fin 60 * Fin 1000
      = Fin (of_int (?b + int i * 3600000))"
    by (simp add: num_def)
  then show ?thesis
    unfolding synthetic_def Let_def base newDateNum_int[OF b(1,2)]
    by (simp only: newDateNum_int[OF b(3,4)])
qed

lemma isNaN_getTime: "isNaN (getTime d) = (d = Invalid)"
  by (cases d) simp_all

lemma processRow_datetime:
  assumes "15552000000 \<le> now" and "now + int i * 3600000 \<le> 8640000000000000"
  shows "datetime (processRow parse now dType r i) =
     (case timestampCell r of
        None \<Rightarrow> Valid (syntheticBase now dType + int i * 3600000)
      | Some c \<Rightarrow> (case newDate parse c of
                     Invalid \<Rightarrow> Valid (syntheticBase now dType + int i * 3600000)
                   | Valid t \<Rightarrow> Valid t))"
  by (simp add: processRow_def timestampCell_def Let_def isNaN_getTime synthetic_valid[OF assms]
      split: Date.split)

lemma processPatientData_nth:
  "i < length rawData \<Longrightarrow>
     processPatientData parse clock rawData dType ! i
       = processRow parse (clock i) dType (rawData ! i) i"
  by (simp add: processPatientData_def)

lemma length_processPatientData [simp]:
  "length (processPatientData parse clock rawData dType) = length rawData"
  by (simp add: processPatientData_def)

text \<open>
  C6. While the clock is sane (it reads a time after the first 180 days of 1970, and the
  synthetic instant of the row lies within the range of \<open>Date\<close>), every row gives a
  record with a valid timestamp: the parsed value of the first truthy column among
  \<open>datetime\<close>, \<open>date\<close>, \<open>timestamp\<close> when it is valid, and otherwise, also when there is no
  such column, the clock's reading (less 180 days for historical rows) plus the row's
  index in hours.
\<close>

theorem processPatientData_timestamp_valid:
  assumes "i < length rawData"
    and "15552000000 \<le> clock i"
    and "clock i + int i * 3600000 \<le> 8640000000000000"
  shows "length (processPatientData parse clock rawData dType) = length rawData
     \<and> datetime (processPatientData parse clock rawData dType ! i) \<noteq> Invalid
     \<and> \<not> isNaN (getTime (datetime (processPatientData parse clock rawData dType ! i)))
     \<and> (timestampCell (rawData ! i) = None
          \<or> (\<exists>c. timestampCell (rawData ! i) = Some c \<and> newDate parse c = Invalid)
        \<longrightarrow> datetime (processPatientData parse clock rawData dType ! i)
              = Valid (syntheticBase (clock i) dType + int i * 3600000))
     \<and> (\<forall>c t. timestampCell (rawData ! i) = Some c \<and> newDate parse c = Valid t
        \<longrightarrow> datetime (processPatientData parse clock rawData dType ! i) = Valid t)"
  unfolding processPatientData_nth[OF assms(1)] processRow_datetime[OF assms(2,3)] isNaN_getTime
  by (auto split: option.split Date.split)

theorem processPatientData_timestamp_valid_witness:
  "(0::nat) < length [\<lambda>c. JUndefined, (\<lambda>c. JUndefined)(''date'' := JString ''x'')]
   \<and> datetime (processPatientData (\<lambda>s. Invalid) (\<lambda>i. 1700000000000)
        [\<lambda>c. JUndefined, (\<lambda>c. JUndefined)(''date'' := JString ''x'')] Historical ! 0)
       = Valid 1684448000000
   \<and> datetime (processPatientData (\<lambda>s. Invalid) (\<lambda>i. 1700000000000)
        [\<lambda>c. JUndefined, (\<lambda>c. JUndefined)(''date'' := JString ''x'')] Predicted ! 1)
       = Valid 1700003600000"
  using processPatientData_timestamp_valid[of 0
      "[\<lambda>c. JUndefined, (\<lambda>c. JUndefined)(''date'' := JString ''x'')]"
      "\<lambda>i. 1700000000000" "\<lambda>s. Invalid" Historical]
    processPatientData_timestamp_valid[of 1
      "[\<lambda>c. JUndefined, (\<lambda>c. JUndefined)(''date'' := JString ''x'')]"
      "\<lambda>i. 1700000000000" "\<lambda>s. Invalid" Predicted]
  by (simp add: timestampCell_def syntheticBase_def)

section \<open>Merging the two sources\<close>

lemma processPatientData_all_valid:
  assumes "saneClock clock (length rawData)"
  shows "\<forall>d\<in>set (processPatientData parse clock rawData dType). datetime d \<noteq> Invalid"
proof
  fix d
  assume "d \<in> set (processPatientData parse clock rawData dType)"
  then obtain i where i: "i < length rawData"
    and d: "d = processPatientData parse clock rawData dType ! i"
    by (auto simp: in_set_conv_nth)
  from assms i have c: "15552000000 \<le> clock i" "clock i + int i * 3600000 \<le> 8640000000000000"
    by (auto simp: saneClock_def)
  show "datetime d \<noteq> Invalid"
    unfolding d processPatientData_nth[OF i] processRow_datetime[OF c]
    by (auto split: option.split Date.split)
qed

lemma getTime_valid: "d \<noteq> Invalid \<Longrightarrow> getTime d = Fin (of_int (timeOf d))"
  by (cases d) simp_all

lemma insert_by_time:
  assumes "datetime x \<noteq> Invalid" and "\<forall>d\<in>set ys. datetime d \<noteq> Invalid"
  shows "insert_by (\<lambda>a b. getTime (datetime a) - getTime (datetime b)) x ys
     = insort_key (\<lambda>d. timeOf (datetime d)) x ys"
  using assms(2)
proof (induction ys)
  case Nil
  show ?case by simp
next
  case (Cons y ys)
  then have "datetime y \<noteq> Invalid" by simp
  with Cons assms(1) show ?case
    by (auto simp: getTime_valid)
qed

lemma sort_by_time:
  assumes "\<forall>d\<in>set xs. datetime d \<noteq> Invalid"
  shows "sort_by (\<lambda>a b. getTime (datetime a) - getTime (datetime b)) xs
     = sort_key (\<lambda>d. timeOf (datetime d)) xs"
  using assms
proof (induction xs)
  case Nil
  show ?case by (simp add: sort_by_def)
next
  case (Cons x xs)
  then have ih: "sort_by (\<lambda>a b. getTime (datetime a) - getTime (datetime b)) xs
     = sort_key (\<lambda>d. timeOf (datetime d)) xs"
    by simp
  have v: "\<forall>d\<in>set (sort_key (\<lambda>d. timeOf (datetime d)) xs). datetime d \<noteq> Invalid"
    using Cons.prems by simp
  have "sort_by (\<lambda>a b. getTime (datetime a) - getTime (datetime b)) (x # xs)
      = insert_by (\<lambda>a b. getTime (datetime a) - getTime (datetime b)) x
          (sort_by (\<lambda>a b. getTime (datetime a) - getTime (datetime b)) xs)"
    by (simp add: sort_by_def)
  also have "\<dots> = insort_key (\<lambda>d. timeOf (datetime d)) x (sort_key (\<lambda>d. timeOf (datetime d)) xs)"
    unfolding ih using Cons.prems v by (intro insert_by_time) simp_all
  finally show ?case by simp
qed

lemma sorted_by_getTime:
  assumes "\<forall>d\<in>set xs. datetime d \<noteq> Invalid"
    and "sorted (map (\<lambda>d. timeOf (datetime d)) xs)"
  shows "sorted_wrt (\<lambda>a b. getTime (datetime a) \<le> getTime (datetime b)) xs"
proof -
  from assms(2) have "sorted_wrt (\<lambda>a b. timeOf (datetime a) \<le> timeOf (datetime b)) xs"
    by (simp add: sorted_map)
  then show ?thesis
    by (rule sorted_wrt_mono_rel[rotated]) (use assms(1) in \<open>simp add: getTime_valid\<close>)
qed

lemma filter_instant:
  assumes "\<forall>d\<in>set xs. datetime d \<noteq> Invalid"
  shows "filter (\<lambda>d. datetime d = t) xs =
     (case t of Valid k \<Rightarrow> filter (\<lambda>d. timeOf (datetime d) = k) xs | Invalid \<Rightarrow> [])"
proof (cases t)
  case (Valid k)
  have "filter (\<lambda>d. datetime d = Valid k) xs = filter (\<lambda>d. timeOf (datetime d) = k) xs"
  proof (rule filter_cong[OF refl])
    fix d assume "d \<in> set xs"
    with assms have "datetime d \<noteq> Invalid" by simp
    then show "(datetime d = Valid k) = (timeOf (datetime d) = k)"
      by (cases "datetime d") simp_all
  qed
  with Valid show ?thesis by simp
next
  case Invalid
  with assms show ?thesis by (simp add: filter_empty_conv)
qed

text \<open>
  C7. While both clocks are sane, the series is a rearrangement of the historical records
  followed by the predicted ones in which timestamps never decrease, and the records of
  any one instant stand as they did before the sort: the historical ones in their order,
  then the predicted ones in theirs.
\<close>

theorem loadCSVData_sorted_stable:
  assumes "saneClock clockH (length historicalRaw)"
    and "saneClock clockP (length predictedRaw)"
  shows "(let historicalData = processPatientData parse clockH historicalRaw Historical;
              predictedData = processPatientData parse clockP predictedRaw Predicted;
              series = loadCSVData parse clockH clockP historicalRaw predictedRaw
          in mset series = mset (historicalData @ predictedData)
             \<and> sorted_wrt (\<lambda>a b. getTime (datetime a) \<le> getTime (datetime b)) series
             \<and> (\<forall>t. filter (\<lambda>d. datetime d = t) series
                    = filter (\<lambda>d. datetime d = t) historicalData
                      @ filter (\<lambda>d. datetime d = t) predictedData))"
proof -
  let ?h = "processPatientData parse clockH historicalRaw Historical"
  let ?p = "processPatientData parse clockP predictedRaw Predicted"
  let ?key = "\<lambda>d. timeOf (datetime d)"
  have v: "\<forall>d\<in>set (?h @ ?p). datetime d \<noteq> Invalid"
    using processPatientData_all_valid[OF assms(1)] processPatientData_all_valid[OF assms(2)]
    by auto
  have s: "loadCSVData parse clockH clockP historicalRaw predictedRaw = sort_key ?key (?h @ ?p)"
    unfolding loadCSVData_def Let_def by (rule sort_by_time[OF v])
  have v': "\<forall>d\<in>set (sort_key ?key (?h @ ?p)). datetime d \<noteq> Invalid"
    using v by simp
  have 1: "mset (sort_key ?key (?h @ ?p)) = mset (?h @ ?p)"
    by simp
  have 2: "sorted_wrt (\<lambda>a b. getTime (datetime a) \<le> getTime (datetime b))
             (sort_key ?key (?h @ ?p))"
    by (rule sorted_by_getTime[OF v']) (rule sorted_sort_key)
  have 3: "filter (\<lambda>d. datetime d = t) (sort_key ?key (?h @ ?p))
      = filter (\<lambda>d. datetime d = t) ?h @ filter (\<lambda>d. datetime d = t) ?p" for t
    unfolding filter_append[symmetric] filter_instant[OF v'] filter_instant[OF v]
    by (cases t) (simp_all only: Date.case sort_key_stable)
  show ?thesis
    unfolding Let_def s using 1 2 3 by blast
qed

theorem loadCSVData_sorted_stable_witness:
  "saneClock (\<lambda>i. 1700000000000) (length [\<lambda>c. JNull, \<lambda>c. JNull])
   \<and> saneClock (\<lambda>i. 1700000000000) (length [(\<lambda>c. JNull)(''timestamp'' := JNumber 1684448000000)])
   \<and> sorted_wrt (\<lambda>a b. getTime (datetime a) \<le> getTime (datetime b))
       (loadCSVData (\<lambda>s. Invalid) (\<lambda>i. 1700000000000) (\<lambda>i. 1700000000000) [\<lambda>c. JNull, \<lambda>c. JNull]
          [(\<lambda>c. JNull)(''timestamp'' := JNumber 1684448000000)])"
proof -
  have h: "saneClock (\<lambda>i. 1700000000000) (length [\<lambda>c. JNull, \<lambda>c. JNull])"
    by (simp add: saneClock_def less_Suc_eq)
  have p: "saneClock (\<lambda>i. 1700000000000)
      (length [(\<lambda>c. JNull)(''timestamp'' := JNumber 1684448000000)])"
    by (simp add: saneClock_def)
  show ?thesis
    using h p loadCSVData_sorted_stable[OF h p, of "\<lambda>s. Invalid"] by (simp add: Let_def)
qed

section \<open>The histogram of equal values\<close>

lemma binCountOf_pos: "0 < n \<Longrightarrow> 0 < binCountOf n"
proof -
  assume "0 < n"
  then have "1 \<le> sqrt (real n)" by simp
  then have "1 \<le> \<lceil>sqrt (real n)\<rceil>" by linarith
  then show ?thesis by (simp add: binCountOf_def)
qed

lemma foldl_min_same: "foldl Math_min2 (Fin v) (replicate n (Fin v)) = Fin v"
  by (induction n) simp_all

lemma foldl_max_same: "foldl Math_max2 (Fin v) (replicate n (Fin v)) = Fin v"
  by (induction n) simp_all

lemma Math_min_same: "0 < n \<Longrightarrow> Math_min (replicate n (Fin v)) = Fin v"
  by (cases n) (simp_all add: Math_min_def foldl_min_same)

lemma Math_max_same: "0 < n \<Longrightarrow> Math_max (replicate n (Fin v)) = Fin v"
  by (cases n) (simp_all add: Math_max_def foldl_max_same)

lemma binIndexOf_zero_width: "binIndexOf (Fin v) (Fin 0) binCount (Fin v) = NaN"
  by (simp add: binIndexOf_def)

lemma histogramStep_zero_width:
  "getAttr a d = Some v \<Longrightarrow> histogramStep a (Fin v) (Fin 0) binCount bins d = bins"
  by (simp add: histogramStep_def binIndexOf_zero_width)

lemma foldl_histogramStep_zero_width:
  "\<forall>d\<in>set xs. getAttr a d = Some v \<Longrightarrow>
     foldl (histogramStep a (Fin v) (Fin 0) binCount) bins xs = bins"
  by (induction xs) (simp_all add: histogramStep_zero_width)

lemma values_all_equal:
  "\<forall>d\<in>set xs. getAttr a d = Some v \<Longrightarrow>
     map (\<lambda>d. asNumber (getAttr a d)) xs = replicate (length xs) (Fin v)"
  by (induction xs) simp_all

text \<open>When all values are equal the histogram is the array of empty bins: the bin width
  is 0, each bin index is \<open>NaN\<close>, and no record is counted.\<close>

lemma createHistogramData_all_equal:
  assumes "fData \<noteq> []" and "\<forall>d\<in>set fData. getAttr a d = Some v"
  shows "createHistogramData expo fData a
     = emptyBins expo (Fin v) (Fin 0) (binCountOf (length fData))"
proof -
  from assms(1) have n: "0 < length fData" by simp
  from binCountOf_pos[OF n] have w: "Fin 0 / num (binCountOf (length fData)) = Fin 0"
    by (simp add: num_def)
  show ?thesis
    using n
    by (simp add: createHistogramData_def values_all_equal[OF assms(2)] Math_min_same
        Math_max_same w foldl_histogramStep_zero_width[OF assms(2)] Let_def)
qed

lemma total_emptyBins: "b \<in> set (emptyBins expo minv w n) \<Longrightarrow> total b = 0"
  by (auto simp: emptyBins_def)

lemma length_emptyBins: "length (emptyBins expo minv w n) = n"
  by (simp add: emptyBins_def)

lemma binCountOf_1: "binCountOf 1 = 1"
  by (simp add: binCountOf_def)

lemma binCountOf_4: "binCountOf 4 = 2"
  by (simp add: binCountOf_def)

lemma upt_2: "[0..<2] = [0, Suc 0]"
  by (simp add: upt_rec)

lemma toFixed1_10: "toFixed1_pos expo 10 = ''10.0''"
  by (simp add: toFixed1_pos_def Let_def decimal.simps digit_def)

lemma toFixed1_5: "toFixed1_pos expo 5 = ''5.0''"
  by (simp add: toFixed1_pos_def Let_def decimal.simps digit_def)

text \<open>
  C1. Four records with the stress index 10, two historical and two predicted: the bin
  width is 0 and the histogram has two bins, both empty. The division of 0 by 0 reaches
  the bin index as \<open>NaN\<close>, and the four values are in no bin, where the specification
  asks for a single bin that holds them all.
\<close>

theorem histogram_equal_values_empty:
  "createHistogramData expo
     [stressRecord t1 Historical 10, stressRecord t2 Historical 10,
      stressRecord t3 Predicted 10, stressRecord t4 Predicted 10] StressIndexKey =
   [\<lparr>range = ''10.0-10.0'', midpoint = Fin 10, countHistorical = 0, countPredicted = 0,
     total = 0\<rparr>,
    \<lparr>range = ''10.0-10.0'', midpoint = Fin 10, countHistorical = 0, countPredicted = 0,
     total = 0\<rparr>]"
proof -
  let ?xs = "[stressRecord t1 Historical 10, stressRecord t2 Historical 10,
      stressRecord t3 Predicted 10, stressRecord t4 Predicted 10]"
  have l: "length ?xs = 4" by simp
  have a: "\<forall>d\<in>set ?xs. getAttr StressIndexKey d = Some 10"
    by (simp add: stressRecord_def)
  have "createHistogramData expo ?xs StressIndexKey = emptyBins expo (Fin 10) (Fin 0) 2"
    using createHistogramData_all_equal[OF _ a, of expo] unfolding l binCountOf_4 by simp
  then show ?thesis
    by (simp add: emptyBins_def upt_2 num_def toFixed1_10)
qed

text \<open>
  C2. A single record with the stress index 5 is the minimum and the maximum of its
  working set. Its bin index is \<open>NaN\<close>, which is no index of the one bin, and the bin
  stays empty: the maximum is not counted in the last bin.
\<close>

theorem histogram_maximum_not_counted:
  "binIndexOf (Fin 5) (Fin 0) 1 (Fin 5) = NaN
   \<and> createHistogramData expo [stressRecord t Historical 5] StressIndexKey =
       [\<lparr>range = ''5.0-5.0'', midpoint = Fin 5, countHistorical = 0, countPredicted = 0,
         total = 0\<rparr>]"
proof -
  let ?xs = "[stressRecord t Historical 5]"
  have l: "length ?xs = 1" by simp
  have a: "\<forall>d\<in>set ?xs. getAttr StressIndexKey d = Some 5"
    by (simp add: stressRecord_def)
  have "createHistogramData expo ?xs StressIndexKey = emptyBins expo (Fin 5) (Fin 0) 1"
    using createHistogramData_all_equal[OF _ a, of expo] unfolding l binCountOf_1 by simp
  then show ?thesis
    by (simp add: emptyBins_def num_def toFixed1_5 binIndexOf_zero_width)
qed

section \<open>The histogram of values that differ\<close>

text \<open>
  When the working set holds two different values the bin width is positive: every
  record's bin index is a whole number from 0 to \<open>binCount - 1\<close>, the maximum has the
  index \<open>binCount - 1\<close>, and every record is counted, in one bin.
\<close>

lemma Math_min2_Fin: "Math_min2 (Fin x) (Fin y) = Fin (min x y)"
  by (simp add: min_def)

lemma Math_max2_Fin: "Math_max2 (Fin x) (Fin y) = Fin (max x y)"
  by (simp add: max_def)

lemma foldl_min_Fin: "foldl Math_min2 (Fin m) (map Fin rs) = Fin (Min (insert m (set rs)))"
proof (induction rs arbitrary: m)
  case Nil
  show ?case by simp
next
  case (Cons r rs)
  have "foldl Math_min2 (Fin m) (map Fin (r # rs)) = foldl Math_min2 (Fin (min m r)) (map Fin rs)"
    by (simp only: list.map foldl_Cons Math_min2_Fin)
  also have "\<dots> = Fin (Min (insert (min m r) (set rs)))"
    by (rule Cons.IH)
  also have "Min (insert (min m r) (set rs)) = Min (insert m (set (r # rs)))"
    by (cases "rs = []") (simp_all add: min.assoc)
  finally show ?case .
qed

lemma foldl_max_Fin: "foldl Math_max2 (Fin m) (map Fin rs) = Fin (Max (insert m (set rs)))"
proof (induction rs arbitrary: m)
  case Nil
  show ?case by simp
next
  case (Cons r rs)
  have "foldl Math_max2 (Fin m) (map Fin (r # rs)) = foldl Math_max2 (Fin (max m r)) (map Fin rs)"
    by (simp only: list.map foldl_Cons Math_max2_Fin)
  also have "\<dots> = Fin (Max (insert (max m r) (set rs)))"
    by (rule Cons.IH)
  also have "Max (insert (max m r) (set rs)) = Max (insert m (set (r # rs)))"
    by (cases "rs = []") (simp_all add: max.assoc)
  finally show ?case .
qed

lemma Math_min_Fin: "rs \<noteq> [] \<Longrightarrow> Math_min (map Fin rs) = Fin (Min (set rs))"
  by (cases rs) (simp_all add: Math_min_def foldl_min_Fin)

lemma Math_max_Fin: "rs \<noteq> [] \<Longrightarrow> Math_max (map Fin rs) = Fin (Max (set rs))"
  by (cases rs) (simp_all add: Math_max_def foldl_max_Fin)

lemma binIndexOf_in_range:
  assumes "0 < w" and "mn \<le> v" and "0 < bc"
  shows "\<exists>k<bc. binIndexOf (Fin mn) (Fin w) bc (Fin v) = Fin (real k)"
proof -
  let ?q = "\<lfloor>(v - mn) / w\<rfloor>"
  have q: "0 \<le> ?q" using assms by simp
  let ?k = "min (nat ?q) (bc - 1)"
  have "binIndexOf (Fin mn) (Fin w) bc (Fin v) = Fin (min (of_int ?q) (real bc - 1))"
    using assms by (simp add: binIndexOf_def num_def Math_min2_Fin)
  also have "min (of_int ?q) (real bc - 1) = real ?k"
    using q assms(3) by (simp add: min_def of_nat_diff) linarith
  finally have "binIndexOf (Fin mn) (Fin w) bc (Fin v) = Fin (real ?k)" .
  moreover have "?k < bc" using assms(3) by simp
  ultimately show ?thesis by blast
qed

lemma binIndexOf_max:
  assumes "mn < mx" and "0 < bc"
  shows "binIndexOf (Fin mn) (Fin ((mx - mn) / real bc)) bc (Fin mx) = Fin (real (bc - 1))"
proof -
  have "(mx - mn) / ((mx - mn) / real bc) = real bc"
    using assms by simp
  then have "\<lfloor>(mx - mn) / ((mx - mn) / real bc)\<rfloor> = int bc" by simp
  then show ?thesis
    using assms by (simp add: binIndexOf_def num_def Math_min2_Fin of_nat_diff)
qed


lemma total_bump: "total (bump t b) = total b + 1"
  by (cases t) simp_all

lemma histogramStep_count:
  assumes "getAttr a d = Some v" and "k < length bins"
    and "binIndexOf minv w bc (Fin v) = Fin (real k)"
  shows "histogramStep a minv w bc bins d = bins[k := bump (dataType d) (bins ! k)]"
  using assms by (simp add: histogramStep_def num_def)

lemma sum_total_update:
  assumes "k < length bins"
  shows "sum_list (map total (bins[k := bump t (bins ! k)])) = sum_list (map total bins) + 1"
proof -
  have "sum_list ((map total bins)[k := total (bins ! k) + 1])
      = sum_list (map total bins) + (total (bins ! k) + 1) - map total bins ! k"
    using assms by (simp add: sum_list_update)
  with assms show ?thesis
    by (simp add: map_update total_bump)
qed

lemma foldl_histogram_counts:
  assumes "length bins = bc"
    and "\<forall>d\<in>set xs. \<exists>v k. getAttr a d = Some v \<and> k < bc
           \<and> binIndexOf minv w bc (Fin v) = Fin (real k)"
  shows "length (foldl (histogramStep a minv w bc) bins xs) = bc
     \<and> sum_list (map total (foldl (histogramStep a minv w bc) bins xs))
         = sum_list (map total bins) + length xs"
  using assms
proof (induction xs arbitrary: bins)
  case Nil
  then show ?case by simp
next
  case (Cons d xs)
  from Cons.prems(2) obtain v k where d: "getAttr a d = Some v" "k < bc"
    "binIndexOf minv w bc (Fin v) = Fin (real k)"
    by auto
  let ?b = "bins[k := bump (dataType d) (bins ! k)]"
  have k: "k < length bins" using d(2) Cons.prems(1) by simp
  have step: "histogramStep a minv w bc bins d = ?b"
    by (rule histogramStep_count[OF d(1) k d(3)])
  have len: "length ?b = bc" using Cons.prems(1) by simp
  have rest: "\<forall>d\<in>set xs. \<exists>v k. getAttr a d = Some v \<and> k < bc
           \<and> binIndexOf minv w bc (Fin v) = Fin (real k)"
    using Cons.prems(2) by simp
  from Cons.IH[OF len rest] sum_total_update[OF k, of "dataType d"] show ?case
    by (simp add: step)
qed

lemma valuesOf_member:
  "d \<in> set xs \<Longrightarrow> getAttr a d = Some v \<Longrightarrow> v \<in> set (valuesOf a xs)"
  by (induction xs) (auto simp: valuesOf_def split: option.split)

lemma createHistogramData_counts_all:
  assumes ne: "fData \<noteq> []"
    and present: "\<forall>d\<in>set fData. hasAttribute a d"
    and spread: "Min (set (valuesOf a fData)) < Max (set (valuesOf a fData))"
  shows "length (createHistogramData expo fData a) = binCountOf (length fData)
     \<and> sum_list (map total (createHistogramData expo fData a)) = length fData"
proof -
  let ?rs = "valuesOf a fData"
  let ?mn = "Min (set ?rs)" and ?mx = "Max (set ?rs)"
  let ?bc = "binCountOf (length fData)"
  let ?w = "(?mx - ?mn) / real ?bc"
  have rs: "?rs \<noteq> []" using length_valuesOf[OF present] ne by auto
  have bc: "0 < ?bc" using ne by (simp add: binCountOf_pos)
  have w: "0 < ?w" using spread bc by simp
  have width: "(Fin ?mx - Fin ?mn) / num ?bc = Fin ?w"
    using bc by (simp add: num_def)
  have idx: "\<forall>d\<in>set fData. \<exists>v k. getAttr a d = Some v \<and> k < ?bc
           \<and> binIndexOf (Fin ?mn) (Fin ?w) ?bc (Fin v) = Fin (real k)"
  proof
    fix d assume d: "d \<in> set fData"
    with present obtain v where v: "getAttr a d = Some v"
      by (auto simp: hasAttribute_def)
    from valuesOf_member[OF d v] have "?mn \<le> v" by simp
    from binIndexOf_in_range[OF w this bc] v
    show "\<exists>v k. getAttr a d = Some v \<and> k < ?bc
           \<and> binIndexOf (Fin ?mn) (Fin ?w) ?bc (Fin v) = Fin (real k)"
      by blast
  qed
  have empty: "sum_list (map total (emptyBins expo (Fin ?mn) (Fin ?w) ?bc)) = 0"
    by (simp add: emptyBins_def o_def)
  have eq: "createHistogramData expo fData a
      = foldl (histogramStep a (Fin ?mn) (Fin ?w) ?bc) (emptyBins expo (Fin ?mn) (Fin ?w) ?bc) fData"
    using ne rs
    by (simp add: createHistogramData_def values_present[OF present] Math_min_Fin[OF rs]
        Math_max_Fin[OF rs] length_valuesOf[OF present] width Let_def del: Fin_minus)
  show ?thesis
    unfolding eq
    using foldl_histogram_counts[OF length_emptyBins idx, of expo] empty by simp
qed

section \<open>No computation writes to an existing array\<close>

lemma alloc_simps [simp]: "fst (alloc a s) = length s" "snd (alloc a s) = s @ [a]"
  by (simp_all add: alloc_def)

lemma recordsAt_new [simp]: "recordsAt (s @ [Records xs]) (length s) = xs"
  by (simp add: recordsAt_def)

lemma numbersAt_new [simp]: "numbersAt (s @ [Numbers xs]) (length s) = xs"
  by (simp add: numbersAt_def)

lemma binsAt_new [simp]: "binsAt (s @ [Bins xs]) (length s) = xs"
  by (simp add: binsAt_def)

lemma recordsAt_prefix: "prefix s0 s \<Longrightarrow> r < length s0 \<Longrightarrow> recordsAt s r = recordsAt s0 r"
  by (auto simp: recordsAt_def prefix_def nth_append)

lemma prefix_update: "prefix s0 s \<Longrightarrow> length s0 \<le> r \<Longrightarrow> prefix s0 (s[r := a])"
  by (auto simp: prefix_def list_update_append)

lemma prefix_alloc: "prefix s0 s \<Longrightarrow> prefix s0 (snd (alloc a s))"
  by simp

lemma length_alloc: "length (snd (alloc a s)) = Suc (length s)"
  by simp

lemma filter_st_frame:
  "prefix s0 s \<Longrightarrow> prefix s0 (snd (filter_st p r s)) \<and> length s0 \<le> fst (filter_st p r s)"
  by (auto simp: filter_st_def dest: prefix_length_le)

lemma map_st_frame:
  "prefix s0 s \<Longrightarrow> prefix s0 (snd (map_st f r s)) \<and> length s0 \<le> fst (map_st f r s)"
  by (auto simp: map_st_def dest: prefix_length_le)

lemma sort_st_frame:
  "prefix s0 s \<Longrightarrow> length s0 \<le> r \<Longrightarrow> prefix s0 (snd (sort_st r s)) \<and> fst (sort_st r s) = r"
  by (auto simp: sort_st_def prefix_update split: array.split)

lemma compare_st_frame: "prefix s0 s \<Longrightarrow> prefix s0 (snd (compare_st expo vd a f ins s))"
  by (simp add: compare_st_def filter_st_def split_def Let_def)

lemma trend_st_frame: "prefix s0 s \<Longrightarrow> prefix s0 (snd (trend_st vd a ins s))"
  by (simp add: trend_st_def map_st_def split_def Let_def)

lemma outlier_st_frame:
  "prefix s0 s \<Longrightarrow> length s0 \<le> vs \<Longrightarrow> prefix s0 (snd (outlier_st vs a ins s))"
  using sort_st_frame[of s0 s vs]
  by (simp add: outlier_st_def split_def Let_def)

lemma generateInsights_st_frame: "prefix s (snd (generateInsights_st expo data a f s))"
proof -
  let ?s1 = "snd (filter_st (hasAttribute a) data s)"
  let ?vd = "fst (filter_st (hasAttribute a) data s)"
  let ?s2 = "snd (compare_st expo ?vd a f [] ?s1)"
  let ?i2 = "fst (compare_st expo ?vd a f [] ?s1)"
  let ?s3 = "snd (trend_st ?vd a ?i2 ?s2)"
  let ?m = "map_st (\<lambda>d. asNumber (getAttr a d)) ?vd ?s3"
  have 1: "prefix s ?s1" using filter_st_frame[of s s] by simp
  have 2: "prefix s ?s2" by (rule compare_st_frame[OF 1])
  have 3: "prefix s ?s3" by (rule trend_st_frame[OF 2])
  have 4: "prefix s (snd ?m)" "length s \<le> fst ?m" using map_st_frame[OF 3] by auto
  have 5: "prefix s (snd (outlier_st (fst ?m) a ins (snd ?m)))" for ins
    by (rule outlier_st_frame[OF 4])
  show ?thesis
    unfolding generateInsights_st_def Let_def split_def
    using 1 5 by simp
qed


lemma metrics_st_frame: "prefix s (snd (metrics_st ws a dr s))"
  by (simp add: metrics_st_def map_st_def filter_st_def split_def Let_def)

lemma filteredData_st_frame: "prefix s (snd (filteredData_st data dr a f s))"
  by (simp add: filteredData_st_def filter_st_def)

lemma chartData_st_frame: "prefix s (snd (chartData_st data a f s))"
  by (simp add: chartData_st_def filter_st_def split_def Let_def)

lemma foldl_update_frame:
  "prefix s0 s \<Longrightarrow> length s0 \<le> r \<Longrightarrow> prefix s0 (foldl (\<lambda>s d. s[r := g s d]) s xs)"
  by (induction xs arbitrary: s) (simp_all add: prefix_update)

lemma createHistogramData_st_frame: "prefix s (snd (createHistogramData_st expo ws a s))"
proof -
  let ?m = "map_st (\<lambda>d. asNumber (getAttr a d)) ws s"
  have 1: "prefix s (snd ?m)" using map_st_frame[of s s] by simp
  have 2: "prefix s (snd (alloc b (snd ?m)))" for b
    using 1 by simp
  have 3: "length s \<le> fst (alloc b (snd ?m))" for b
    using 1 by (simp add: prefix_length_le le_SucI)
  show ?thesis
    unfolding createHistogramData_st_def Let_def split_def
    using 2 3 by (auto intro!: foldl_update_frame simp del: alloc_simps)
qed

lemma createBoxPlotData_st_frame: "prefix s (snd (createBoxPlotData_st ws a f s))"
proof -
  let ?f1 = "filter_st (\<lambda>d. dataType d = Historical) ws s"
  let ?m1 = "map_st (\<lambda>d. asNumber (getAttr a d)) (fst ?f1) (snd ?f1)"
  let ?o1 = "sort_st (fst ?m1) (snd ?m1)"
  let ?f2 = "filter_st (\<lambda>d. dataType d = Predicted) ws (snd ?o1)"
  let ?m2 = "map_st (\<lambda>d. asNumber (getAttr a d)) (fst ?f2) (snd ?f2)"
  let ?o2 = "sort_st (fst ?m2) (snd ?m2)"
  have 1: "prefix s (snd ?f1)" using filter_st_frame[of s s] by simp
  have 2: "prefix s (snd ?m1)" "length s \<le> fst ?m1" using map_st_frame[OF 1] by auto
  have 3: "prefix s (snd ?o1)" using sort_st_frame[OF 2] by simp
  have 4: "prefix s (snd ?f2)" using filter_st_frame[OF 3] by simp
  have 5: "prefix s (snd ?m2)" "length s \<le> fst ?m2" using map_st_frame[OF 4] by auto
  have 6: "prefix s (snd ?o2)" using sort_st_frame[OF 5] by simp
  show ?thesis
    unfolding createBoxPlotData_st_def Let_def split_def using 6 by simp
qed

lemma filteredData_st_result:
  "recordsAt (snd (filteredData_st data dr a f s)) (fst (filteredData_st data dr a f s))
     = filteredData (recordsAt s data) dr a f"
  by (simp add: filteredData_st_def filter_st_def filteredData_def)

lemma compare_st_result:
  "fst (compare_st expo vd a f ins s) = compareHistoricalPredicted expo (recordsAt s vd) a f ins"
  by (simp add: compare_st_def split_def Let_def compareHistoricalPredicted_def)

lemma trend_st_result: "fst (trend_st vd a ins s) = trendAnalysis (recordsAt s vd) a ins"
  by (simp add: trend_st_def split_def Let_def trendAnalysis_def)

lemma outlier_st_result:
  "fst (outlier_st (length s) a ins (s @ [Numbers xs])) = outlierDetection xs a ins"
  by (simp add: outlier_st_def sort_st_def split_def Let_def outlierDetection_def numbersAt_def
      nth_append)

lemma generateInsights_st_result:
  "fst (generateInsights_st expo data a f s) = generateInsights expo (recordsAt s data) a f"
proof -
  let ?xs = "filter (hasAttribute a) (recordsAt s data)"
  let ?s1 = "s @ [Records ?xs]"
  let ?vd = "length s"
  let ?s2 = "snd (compare_st expo ?vd a f [] ?s1)"
  have p1: "prefix ?s1 ?s2" by (rule compare_st_frame) simp
  have p2: "prefix ?s1 (snd (trend_st ?vd a ins ?s2))" for ins
    by (rule trend_st_frame[OF p1])
  have r1: "recordsAt ?s1 ?vd = ?xs" by simp
  have r2: "recordsAt ?s2 ?vd = ?xs" using recordsAt_prefix[OF p1, of ?vd] by simp
  have r3: "recordsAt (snd (trend_st ?vd a ins ?s2)) ?vd = ?xs" for ins
    using recordsAt_prefix[OF p2, of ?vd ins] by simp
  show ?thesis
    unfolding generateInsights_st_def generateInsights_def Let_def split_def filter_st_def
      map_st_def alloc_simps
    by (simp add: compare_st_result trend_st_result r1 r2 r3 outlier_st_result)
qed

lemma metrics_st_result: "fst (metrics_st ws a dr s) = metrics (recordsAt s ws) a dr"
  by (simp add: metrics_st_def split_def Let_def)

lemma recordsAt_second [simp]: "recordsAt (s @ [b, Records xs]) (Suc (length s)) = xs"
  by (simp add: recordsAt_def nth_append)

lemma binsAt_second [simp]: "binsAt (s @ [b, Bins xs]) (Suc (length s)) = xs"
  by (simp add: binsAt_def nth_append)

lemma chartData_st_result:
  "recordsAt (snd (chartData_st data a f s)) (fst (chartData_st data a f s))
     = chartData (recordsAt s data) a f"
  by (simp add: chartData_st_def chartData_def filter_st_def split_def Let_def)

lemma recordsAt_append: "r < length s \<Longrightarrow> recordsAt (s @ t) r = recordsAt s r"
  by (simp add: recordsAt_def nth_append)

lemma binsAt_update: "k < length s \<Longrightarrow> binsAt (s[k := Bins b]) k = b"
  by (simp add: binsAt_def)

lemma foldl_bins:
  "k < length s \<Longrightarrow>
   binsAt (foldl (\<lambda>s d. s[k := Bins (g (binsAt s k) d)]) s xs) k = foldl g (binsAt s k) xs"
  by (induction xs arbitrary: s) (simp_all add: binsAt_update)

lemma foldl_bins_second:
  "binsAt (foldl (\<lambda>t d. t[Suc (length s) := Bins (g (binsAt t (Suc (length s))) d)])
             (s @ [b, Bins bins]) xs) (Suc (length s)) = foldl g bins xs"
  using foldl_bins[of "Suc (length s)" "s @ [b, Bins bins]" g xs] by simp

lemma createHistogramData_st_result:
  assumes "ws < length s"
  shows "binsAt (snd (createHistogramData_st expo ws a s)) (fst (createHistogramData_st expo ws a s))
     = createHistogramData expo (recordsAt s ws) a"
proof -
  have r: "recordsAt (s @ t) ws = recordsAt s ws" for t
    using assms by (rule recordsAt_append)
  show ?thesis
    unfolding createHistogramData_st_def createHistogramData_def Let_def split_def map_st_def
      alloc_simps numbersAt_new
    by (simp add: r foldl_bins_second)
qed

lemma sorted_values_st:
  "numbersAt (snd (sort_st (length s) (s @ [Numbers xs]))) (length s) = sortNumbers xs
   \<and> fst (sort_st (length s) (s @ [Numbers xs])) = length s
   \<and> snd (sort_st (length s) (s @ [Numbers xs])) = s @ [Numbers (sortNumbers xs)]"
  by (simp add: sort_st_def numbersAt_def)

lemma numbersAt_append: "r < length s \<Longrightarrow> numbersAt (s @ t) r = numbersAt s r"
  by (simp add: numbersAt_def nth_append)

lemma createBoxPlotData_st_result:
  assumes "ws < length s"
  shows "fst (createBoxPlotData_st ws a f s) = createBoxPlotData (recordsAt s ws) a f"
proof -
  let ?g = "\<lambda>d. asNumber (getAttr a d)"
  let ?f1 = "filter_st (\<lambda>d. dataType d = Historical) ws s"
  let ?m1 = "map_st ?g (fst ?f1) (snd ?f1)"
  let ?o1 = "sort_st (fst ?m1) (snd ?m1)"
  let ?f2 = "filter_st (\<lambda>d. dataType d = Predicted) ws (snd ?o1)"
  let ?m2 = "map_st ?g (fst ?f2) (snd ?f2)"
  let ?o2 = "sort_st (fst ?m2) (snd ?m2)"
  let ?h = "sortNumbers (map ?g (filter (\<lambda>d. dataType d = Historical) (recordsAt s ws)))"
  let ?p = "sortNumbers (map ?g (filter (\<lambda>d. dataType d = Predicted) (recordsAt s ws)))"
  have r: "recordsAt (s @ t) ws = recordsAt s ws" for t
    using assms by (rule recordsAt_append)
  have r2: "recordsAt (s @ [b, c, Records xs]) (Suc (Suc (length s))) = xs" for b c xs
    by (simp add: recordsAt_def nth_append)
  have o1: "?o1 = (Suc (length s),
      s @ [Records (filter (\<lambda>d. dataType d = Historical) (recordsAt s ws)), Numbers ?h])"
    by (simp add: filter_st_def map_st_def sort_st_def nth_append list_update_append)
  have o2: "?o2 = (Suc (Suc (Suc (length s))),
      s @ [Records (filter (\<lambda>d. dataType d = Historical) (recordsAt s ws)), Numbers ?h,
           Records (filter (\<lambda>d. dataType d = Predicted) (recordsAt s ws)), Numbers ?p])"
    unfolding o1
    by (simp add: filter_st_def map_st_def sort_st_def nth_append list_update_append r r2)
  have hv: "numbersAt (snd ?o2) (fst ?o1) = ?h"
    unfolding o2 unfolding o1 by (simp add: numbersAt_def nth_append)
  have pv: "numbersAt (snd ?o2) (fst ?o2) = ?p"
    unfolding o2 by (simp add: numbersAt_def nth_append)
  show ?thesis
    unfolding createBoxPlotData_st_def createBoxPlotData_def Let_def split_def
    by (simp only: hv pv fst_conv)
qed

text \<open>
  C9. Let the series and the working set be arrays of the store. Computing the working
  set creates a new array and leaves every array of the store as it was; computing it
  again gives an array with the same contents. The metrics, the insights, the chart's
  filter, the histogram and the box plot likewise leave every array of the store as it
  was: the final store is the initial one with new arrays behind it. The sorts of the
  outlier block and of the box plot write to arrays that \<open>map\<close> has just created, and
  each result is the one computed from the contents of the series or the working set.
\<close>

theorem computations_preserve_store:
  assumes "data < length s" and "ws < length s"
  shows "(let (w1, s1) = filteredData_st data dr a f s;
              (w2, s2) = filteredData_st data dr a f s1
          in recordsAt s1 w1 = filteredData (recordsAt s data) dr a f
             \<and> recordsAt s2 w2 = recordsAt s1 w1
             \<and> prefix s s1 \<and> prefix s1 s2)
     \<and> prefix s (snd (metrics_st ws a dr s))
     \<and> fst (metrics_st ws a dr s) = metrics (recordsAt s ws) a dr
     \<and> prefix s (snd (generateInsights_st expo ws a f s))
     \<and> fst (generateInsights_st expo ws a f s) = generateInsights expo (recordsAt s ws) a f
     \<and> prefix s (snd (chartData_st data a f s))
     \<and> recordsAt (snd (chartData_st data a f s)) (fst (chartData_st data a f s))
         = chartData (recordsAt s data) a f
     \<and> prefix s (snd (createHistogramData_st expo ws a s))
     \<and> binsAt (snd (createHistogramData_st expo ws a s))
           (fst (createHistogramData_st expo ws a s))
         = createHistogramData expo (recordsAt s ws) a
     \<and> prefix s (snd (createBoxPlotData_st ws a f s))
     \<and> fst (createBoxPlotData_st ws a f s) = createBoxPlotData (recordsAt s ws) a f"
proof -
  let ?r1 = "filteredData_st data dr a f s"
  let ?r2 = "filteredData_st data dr a f (snd ?r1)"
  have p: "prefix s (snd ?r1)" by (rule filteredData_st_frame)
  have same: "recordsAt (snd ?r1) data = recordsAt s data"
    by (rule recordsAt_prefix[OF p assms(1)])
  have "recordsAt (snd ?r2) (fst ?r2) = recordsAt (snd ?r1) (fst ?r1)"
    unfolding filteredData_st_result same ..
  then have w: "(let (w1, s1) = filteredData_st data dr a f s;
              (w2, s2) = filteredData_st data dr a f s1
          in recordsAt s1 w1 = filteredData (recordsAt s data) dr a f
             \<and> recordsAt s2 w2 = recordsAt s1 w1
             \<and> prefix s s1 \<and> prefix s1 s2)"
    using p filteredData_st_frame[of "snd ?r1" data dr a f]
    by (simp add: split_def filteredData_st_result)
  show ?thesis
    by (intro conjI)
      (rule w metrics_st_frame metrics_st_result generateInsights_st_frame
        generateInsights_st_result chartData_st_frame chartData_st_result
        createHistogramData_st_frame createHistogramData_st_result[OF assms(2)]
        createBoxPlotData_st_frame createBoxPlotData_st_result[OF assms(2)])+
qed

theorem computations_preserve_store_witness:
  "(0::nat) < length [Records sampleSet]
   \<and> prefix [Records sampleSet]
       (snd (generateInsights_st (\<lambda>x. []) 0 StressIndexKey Both [Records sampleSet]))
   \<and> prefix [Records sampleSet]
       (snd (createBoxPlotData_st 0 StressIndexKey Both [Records sampleSet]))"
proof -
  have h: "(0::nat) < length [Records sampleSet]" by simp
  show ?thesis
    using h computations_preserve_store[OF h h, of "\<lparr>range_start = Valid 0, range_end = Valid 10\<rparr>" StressIndexKey Both "\<lambda>x. []"] by simp
qed

end
